theory Spec2Isabelle
  imports Main
begin

section \<open>Data model (src/types.ts, src/App.tsx)\<close>

text \<open>
  \<^verbatim>\<open>TranscriptStatus\<close> and \<^verbatim>\<open>Transcript\<close> of src/types.ts. The optional
  property \<^verbatim>\<open>error?\<close> and the nullable \<^verbatim>\<open>text\<close> are options. Constructors and
  fields carry a prefix where the source's name is taken twice (the job status and the
  workflow status both have \<^verbatim>\<open>completed\<close> and \<^verbatim>\<open>error\<close>).
\<close>

datatype TranscriptStatus = TQueued | TProcessing | TCompleted | TError

record Transcript =
  t_id :: string
  t_audio_url :: string
  t_status :: TranscriptStatus
  t_text :: "string option"
  t_error :: "string option"

text \<open>\<^verbatim>\<open>Status\<close> of src/App.tsx, the workflow state.\<close>

datatype Status = Idle | Uploading | Submitting | Polling | Completed | Error

text \<open>A browser \<^verbatim>\<open>File\<close>: a name and its bytes. A File object is always truthy.\<close>

datatype File = File (file_name: string) (file_bytes: "nat list")

text \<open>A thrown JavaScript \<^verbatim>\<open>Error\<close> (also TypeError, SyntaxError) with its message.\<close>

datatype js_error = JsError (message: string)

section \<open>JavaScript helpers\<close>

text \<open>\<^verbatim>\<open>x || d\<close> on a possibly undefined string: undefined and the empty string are falsy.\<close>

definition js_or :: "string option \<Rightarrow> string \<Rightarrow> string" where
  "js_or x d = (case x of None \<Rightarrow> d | Some m \<Rightarrow> if m = [] then d else m)"

text \<open>A possibly undefined string inside a template literal.\<close>

definition js_template :: "string option \<Rightarrow> string" where
  "js_template x = (case x of None \<Rightarrow> ''undefined'' | Some m \<Rightarrow> m)"

text \<open>A number inside a template literal: its decimal digits.\<close>

fun string_of_nat :: "nat \<Rightarrow> string" where
  "string_of_nat n =
     (if n < 10 then [char_of (48 + n)]
      else string_of_nat (n div 10) @ [char_of (48 + n mod 10)])"

declare string_of_nat.simps [simp del]

section \<open>The string literals of the source\<close>

text \<open>
  JavaScript strings are sequences of UTF-16 code units; every character of the
  source's literals lies below U+0100, so one \<^typ>\<open>char\<close> holds each of them.
\<close>

definition msg_key_upload :: string where
  "msg_key_upload = ''A chave da API '' @ [CHR 0xE9] @ '' necess'' @ [CHR 0xE1]
     @ ''ria para o upload.''"

definition msg_key_submit :: string where
  "msg_key_submit = ''A chave da API '' @ [CHR 0xE9] @ '' necess'' @ [CHR 0xE1]
     @ ''ria para a transcri'' @ [CHR 0xE7, CHR 0xE3] @ ''o.''"

definition msg_key_result :: string where
  "msg_key_result = ''A chave da API '' @ [CHR 0xE9] @ '' necess'' @ [CHR 0xE1]
     @ ''ria para obter o resultado.''"

definition msg_insert_key :: string where
  "msg_insert_key = ''Por favor, insira sua chave da API AssemblyAI para continuar.''"

definition msg_job_failed :: string where
  "msg_job_failed = ''Falha ao processar a transcri'' @ [CHR 0xE7, CHR 0xE3] @ ''o.''"

definition msg_poll_failed :: string where
  "msg_poll_failed = ''N'' @ [CHR 0xE3] @ ''o foi poss'' @ [CHR 0xED]
     @ ''vel obter o resultado da transcri'' @ [CHR 0xE7, CHR 0xE3] @ ''o.''"

definition msg_submit_error :: string where
  "msg_submit_error = ''Erro ao submeter o '' @ [CHR 0xE1] @ ''udio.''"

definition msg_request_failed :: string where
  "msg_request_failed = ''Falha ao enviar a solicita'' @ [CHR 0xE7, CHR 0xE3] @ ''o: ''"

definition API_BASE_URL :: string where
  "API_BASE_URL = ''https://api.assemblyai.com/v2''"

section \<open>Transcription Client (src/services/assemblyai.ts)\<close>

text \<open>
  The HTTP requests the client issues. \<^verbatim>\<open>fetch\<close> without a method is a GET.
\<close>

datatype req_body = NoBody | FileBody File | JsonBody string string

record request =
  r_method :: string
  r_url :: string
  r_headers :: "(string \<times> string) list"
  r_body :: req_body

text \<open>
  What \<^verbatim>\<open>fetch\<close> gives back, as far as the client reads it. The promise rejects
  (a network failure, \<open>Inl\<close>) or resolves to a response. \<^verbatim>\<open>response.ok\<close> is the
  tag: of a response that is not ok the client reads \<^verbatim>\<open>status\<close>,
  \<^verbatim>\<open>statusText\<close> and \<^verbatim>\<open>(await response.json()).error\<close>; of an ok response it
  reads \<^verbatim>\<open>await response.json()\<close> at the endpoint's declared type (the
  \<^verbatim>\<open>upload_url\<close> of the upload endpoint, a Transcript of the other two).
  \<^verbatim>\<open>response.json()\<close> rejects when the body is not JSON (\<open>Inl\<close>).
\<close>

datatype 'a response =
    NotOk (resp_status: nat) (resp_statusText: string) (resp_errorData: "js_error + string option")
  | Ok (resp_data: "js_error + 'a")

type_synonym 'a fetched = "js_error + 'a response"

text \<open>
  Each operation is an \<^verbatim>\<open>async\<close> function: it throws at once on an empty
  credential, otherwise it sends one request and suspends; the rest of its body runs on
  what \<^verbatim>\<open>fetch\<close> gives back. The three parts are written apart, the request, the
  code after \<^verbatim>\<open>await fetch\<close>, and the whole operation as a function of the
  answer, which returns the result and the requests sent.
\<close>

definition uploadRequest :: "File \<Rightarrow> string \<Rightarrow> request" where
  "uploadRequest file key =
     \<lparr>r_method = ''POST'', r_url = API_BASE_URL @ ''/upload'',
      r_headers = [(''authorization'', key)], r_body = FileBody file\<rparr>"

definition uploadResponse :: "string fetched \<Rightarrow> js_error + string" where
  "uploadResponse net =
     (case net of
        Inl e \<Rightarrow> Inl e
      | Inr (NotOk st txt errorData) \<Rightarrow>
          (case errorData of
             Inl e \<Rightarrow> Inl e
           | Inr err \<Rightarrow>
               Inl (JsError (''API Error while uploading: '' @ string_of_nat st @ '' '' @ txt
                      @ '' - '' @ js_or err ''Unknown upload error'')))
      | Inr (Ok d) \<Rightarrow> d)"

definition uploadFile ::
  "File \<Rightarrow> string \<Rightarrow> string fetched \<Rightarrow> (js_error + string) \<times> request list" where
  "uploadFile file key net =
     (if key = [] then (Inl (JsError msg_key_upload), [])
      else (uploadResponse net, [uploadRequest file key]))"

definition transcriptionRequest :: "string \<Rightarrow> string \<Rightarrow> request" where
  "transcriptionRequest url key =
     \<lparr>r_method = ''POST'', r_url = API_BASE_URL @ ''/transcript'',
      r_headers = [(''authorization'', key), (''content-type'', ''application/json'')],
      r_body = JsonBody url ''pt''\<rparr>"

definition transcriptionResponse :: "Transcript fetched \<Rightarrow> js_error + Transcript" where
  "transcriptionResponse net =
     (case net of
        Inl e \<Rightarrow> Inl e
      | Inr (NotOk st txt errorData) \<Rightarrow>
          (case errorData of
             Inl e \<Rightarrow> Inl e
           | Inr err \<Rightarrow>
               Inl (JsError (''API Error: '' @ string_of_nat st @ '' '' @ txt
                      @ '' - '' @ js_template err)))
      | Inr (Ok d) \<Rightarrow> d)"

definition submitForTranscription ::
  "string \<Rightarrow> string \<Rightarrow> Transcript fetched \<Rightarrow> (js_error + Transcript) \<times> request list" where
  "submitForTranscription url key net =
     (if key = [] then (Inl (JsError msg_key_submit), [])
      else (transcriptionResponse net, [transcriptionRequest url key]))"

definition resultRequest :: "string \<Rightarrow> string \<Rightarrow> request" where
  "resultRequest jid key =
     \<lparr>r_method = ''GET'', r_url = API_BASE_URL @ ''/transcript/'' @ jid,
      r_headers = [(''authorization'', key), (''content-type'', ''application/json'')],
      r_body = NoBody\<rparr>"

definition resultResponse :: "Transcript fetched \<Rightarrow> js_error + Transcript" where
  "resultResponse net =
     (case net of
        Inl e \<Rightarrow> Inl e
      | Inr (NotOk st txt errorData) \<Rightarrow>
          (case errorData of
             Inl e \<Rightarrow> Inl e
           | Inr err \<Rightarrow>
               Inl (JsError (''API Error: '' @ string_of_nat st @ '' '' @ txt
                      @ '' - '' @ js_template err)))
      | Inr (Ok d) \<Rightarrow> d)"

definition getTranscriptionResult ::
  "string \<Rightarrow> string \<Rightarrow> Transcript fetched \<Rightarrow> (js_error + Transcript) \<times> request list" where
  "getTranscriptionResult jid key net =
     (if key = [] then (Inl (JsError msg_key_result), [])
      else (resultResponse net, [resultRequest jid key]))"

section \<open>Workflow Controller (src/App.tsx)\<close>

text \<open>
  The effects a handler has on its surroundings, in the order they happen: every
  \<^verbatim>\<open>setStatus\<close>, every call of a client operation, every HTTP request, every
  \<^verbatim>\<open>setInterval\<close> and \<^verbatim>\<open>clearInterval\<close>.
\<close>

datatype client_op = OpUpload | OpCreateJob | OpFetchJob

datatype event =
    StatusSet Status
  | ClientCall client_op
  | HttpRequest request
  | IntervalSet nat
  | IntervalCleared nat

text \<open>
  A handler suspended at an \<^verbatim>\<open>await\<close> of a client operation, with what the rest
  of its body closed over: handleSubmit waiting for the upload or for the new job (both
  keep the \<^verbatim>\<open>apiKey\<close> of the render that handled the submit, which is also the
  \<^verbatim>\<open>apiKey\<close> of its \<^verbatim>\<open>pollTranscript\<close>), or an interval callback waiting
  for the job's state (the rest of its body uses no closed-over value).
\<close>

datatype pending = AwaitUpload string | AwaitCreateJob string | AwaitFetchJob

text \<open>
  The component's state (its \<^verbatim>\<open>useState\<close> cells and its two refs) together with
  the part of the browser it acts on: the window's active interval timers, each with
  the job id and the credential its callback closed over; the next timer handle; the
  requests in flight, each with the suspended handler that waits for it; the clipboard
  and the pending copy time-outs; the console; and the log of effects.
  \<^verbatim>\<open>fileInputRef\<close> is \<open>None\<close> when the ref is null and otherwise the value of the
  input element.
\<close>

record app =
  apiKey :: string
  audioUrl :: string
  selectedFile :: "File option"
  transcript :: "Transcript option"
  status :: Status
  error :: "string option"
  isCopied :: bool
  pollingIntervalRef :: "nat option"
  fileInputRef :: "string option"
  timers :: "(nat \<times> string \<times> string) list"
  nextHandle :: nat
  pending :: "pending list"
  clipboard :: "string option"
  copyTimeouts :: nat
  console :: "js_error list"
  trace :: "event list"

text \<open>The first render: the credential comes from local storage, or is empty.\<close>

definition initial :: "string \<Rightarrow> app" where
  "initial k =
     \<lparr>apiKey = k, audioUrl = [], selectedFile = None, transcript = None, status = Idle,
      error = None, isCopied = False, pollingIntervalRef = None, fileInputRef = Some [],
      timers = [], nextHandle = 0, pending = [], clipboard = None, copyTimeouts = 0,
      console = [], trace = []\<rparr>"

definition logEvents :: "event list \<Rightarrow> app \<Rightarrow> app" where
  "logEvents evs s = s\<lparr>trace := trace s @ evs\<rparr>"

definition setStatus :: "Status \<Rightarrow> app \<Rightarrow> app" where
  "setStatus v s = s\<lparr>status := v, trace := trace s @ [StatusSet v]\<rparr>"

text \<open>A handler suspends: its request is in flight.\<close>

definition suspend :: "pending \<Rightarrow> app \<Rightarrow> app" where
  "suspend p s = s\<lparr>pending := pending s @ [p]\<rparr>"

text \<open>
  \<^verbatim>\<open>window.setInterval\<close> hands out a fresh positive handle; \<^verbatim>\<open>clearInterval\<close>
  removes the timer with that handle, if there is one.
\<close>

definition setInterval :: "string \<times> string \<Rightarrow> app \<Rightarrow> nat \<times> app" where
  "setInterval closure s =
     (let h = Suc (nextHandle s)
      in (h, s\<lparr>timers := timers s @ [(h, closure)], nextHandle := h,
                trace := trace s @ [IntervalSet h]\<rparr>))"

definition clearInterval :: "nat \<Rightarrow> app \<Rightarrow> app" where
  "clearInterval h s =
     s\<lparr>timers := filter (\<lambda>t. fst t \<noteq> h) (timers s), trace := trace s @ [IntervalCleared h]\<rparr>"

text \<open>\<^verbatim>\<open>if (pollingIntervalRef.current)\<close>: null and 0 are falsy.\<close>

definition refTruthy :: "nat option \<Rightarrow> bool" where
  "refTruthy r = (case r of None \<Rightarrow> False | Some h \<Rightarrow> h \<noteq> 0)"

text \<open>
  \<^verbatim>\<open>if (pollingIntervalRef.current) { clearInterval(pollingIntervalRef.current);
  pollingIntervalRef.current = null; }\<close>, as resetState and the poll callback have it.
\<close>

definition stopPolling :: "app \<Rightarrow> app" where
  "stopPolling s =
     (if refTruthy (pollingIntervalRef s)
      then (clearInterval (the (pollingIntervalRef s)) s)\<lparr>pollingIntervalRef := None\<rparr>
      else s)"

text \<open>resetState cancels the timer; it does not touch the requests in flight.\<close>

definition resetState :: "app \<Rightarrow> app" where
  "resetState s =
     (let s1 = s\<lparr>audioUrl := [], selectedFile := None\<rparr>;
          s2 = (case fileInputRef s1 of None \<Rightarrow> s1 | Some v \<Rightarrow> s1\<lparr>fileInputRef := Some []\<rparr>);
          s3 = s2\<lparr>transcript := None\<rparr>;
          s4 = setStatus Idle s3;
          s5 = s4\<lparr>error := None, isCopied := False\<rparr>
      in stopPolling s5)"

text \<open>
  The callback that pollTranscript hands to \<^verbatim>\<open>setInterval\<close>, in its three parts.
  \<open>pollCatch\<close> is its \<^verbatim>\<open>catch\<close> block. \<open>pollTick\<close> is the callback up to the
  \<^verbatim>\<open>await\<close>, with the job id and the credential it closed over: it calls
  getTranscriptionResult, which throws at once on an empty credential and otherwise
  sends its request. \<open>fetchAnswered\<close> is the rest of the callback, run when the answer
  is there; it reads the ref as it is then.
\<close>

definition pollCatch :: "js_error \<Rightarrow> app \<Rightarrow> app" where
  "pollCatch err s =
     (let s2 = stopPolling s;
          s3 = setStatus Error s2;
          s4 = s3\<lparr>error := Some msg_poll_failed\<rparr>
      in s4\<lparr>console := console s4 @ [err]\<rparr>)"

definition pollTick :: "string \<times> string \<Rightarrow> app \<Rightarrow> app" where
  "pollTick closure s =
     (let (jid, key) = closure;
          s1 = logEvents [ClientCall OpFetchJob] s
      in if key = [] then pollCatch (JsError msg_key_result) s1
         else suspend AwaitFetchJob (logEvents [HttpRequest (resultRequest jid key)] s1))"

definition fetchAnswered :: "Transcript fetched \<Rightarrow> app \<Rightarrow> app" where
  "fetchAnswered net s =
     (case resultResponse net of
        Inr result \<Rightarrow>
          if t_status result = TCompleted \<or> t_status result = TError then
            let s2 = stopPolling s;
                s3 = s2\<lparr>transcript := Some result\<rparr>
            in if t_status result = TCompleted then setStatus Completed s3
               else (setStatus Error s3)\<lparr>error := Some (js_or (t_error result) msg_job_failed)\<rparr>
          else s
      | Inl err \<Rightarrow> pollCatch err s)"

text \<open>
  pollTranscript, with the \<^verbatim>\<open>apiKey\<close> it closed over (it is a
  \<^verbatim>\<open>useCallback\<close> on \<^verbatim>\<open>apiKey\<close>).
\<close>

definition pollTranscript :: "string \<Rightarrow> string \<Rightarrow> app \<Rightarrow> app" where
  "pollTranscript key jid s =
     (if key = [] then s
      else
        let s1 = (if refTruthy (pollingIntervalRef s)
                  then clearInterval (the (pollingIntervalRef s)) s else s);
            (h, s2) = setInterval (jid, key) s1
        in s2\<lparr>pollingIntervalRef := Some h\<rparr>)"

text \<open>The \<^verbatim>\<open>catch\<close> block of handleSubmit. Everything the model throws is an Error.\<close>

definition submitCatch :: "js_error \<Rightarrow> app \<Rightarrow> app" where
  "submitCatch err s =
     (let s1 = setStatus Error s;
          s2 = s1\<lparr>error := Some (msg_request_failed @ message err)\<rparr>
      in s2\<lparr>console := console s2 @ [err]\<rparr>)"

text \<open>
  handleSubmit's \<^verbatim>\<open>try\<close> block after the second \<^verbatim>\<open>await\<close>: the answer to
  the new job is there. \<open>key\<close> is the \<^verbatim>\<open>apiKey\<close> the handler closed over.
\<close>

definition createJobAnswered :: "string \<Rightarrow> Transcript fetched \<Rightarrow> app \<Rightarrow> app" where
  "createJobAnswered key net s =
     (case transcriptionResponse net of
        Inl err \<Rightarrow> submitCatch err s
      | Inr initialResponse \<Rightarrow>
          (let s3 = s\<lparr>transcript := Some initialResponse\<rparr>
           in (case t_status initialResponse of
                 TError \<Rightarrow>
                   (setStatus Error s3)\<lparr>error :=
                      Some (js_or (t_error initialResponse) msg_submit_error)\<rparr>
               | TQueued \<Rightarrow> pollTranscript key (t_id initialResponse) (setStatus Polling s3)
               | TProcessing \<Rightarrow> pollTranscript key (t_id initialResponse) (setStatus Polling s3)
               | TCompleted \<Rightarrow>
                   setStatus Completed (s3\<lparr>transcript := Some initialResponse\<rparr>))))"

text \<open>
  From \<^verbatim>\<open>setStatus('submitting')\<close> to the \<^verbatim>\<open>await\<close> of
  submitForTranscription, which throws at once on an empty credential and otherwise sends
  its request.
\<close>

definition startTranscription :: "string \<Rightarrow> string \<Rightarrow> app \<Rightarrow> app" where
  "startTranscription transcriptionUrl key s =
     (let s1 = setStatus Submitting s;
          s2 = logEvents [ClientCall OpCreateJob] s1
      in if key = [] then submitCatch (JsError msg_key_submit) s2
         else suspend (AwaitCreateJob key)
                (logEvents [HttpRequest (transcriptionRequest transcriptionUrl key)] s2))"

text \<open>The \<^verbatim>\<open>try\<close> block after the first \<^verbatim>\<open>await\<close>: the upload is answered.\<close>

definition uploadAnswered :: "string \<Rightarrow> string fetched \<Rightarrow> app \<Rightarrow> app" where
  "uploadAnswered key net s =
     (case uploadResponse net of
        Inl err \<Rightarrow> submitCatch err s
      | Inr transcriptionUrl \<Rightarrow> startTranscription transcriptionUrl key s)"

text \<open>
  From \<^verbatim>\<open>setStatus('uploading')\<close> to the \<^verbatim>\<open>await\<close> of uploadFile.
\<close>

definition startUpload :: "File \<Rightarrow> string \<Rightarrow> app \<Rightarrow> app" where
  "startUpload file key s =
     (let s1 = setStatus Uploading s;
          s2 = logEvents [ClientCall OpUpload] s1
      in if key = [] then submitCatch (JsError msg_key_upload) s2
         else suspend (AwaitUpload key) (logEvents [HttpRequest (uploadRequest file key)] s2))"

text \<open>
  handleSubmit up to its first \<^verbatim>\<open>await\<close>. It runs in the render of the state as
  it is when the form is submitted.
\<close>

definition handleSubmit :: "app \<Rightarrow> app" where
  "handleSubmit s =
     (if apiKey s = [] then (setStatus Error s)\<lparr>error := Some msg_insert_key\<rparr>
      else if (audioUrl s = [] \<and> selectedFile s = None)
              \<or> status s \<in> set [Uploading, Submitting, Polling] then s
      else
        let s1 = s\<lparr>error := None, transcript := None, isCopied := False\<rparr>
        in case selectedFile s of
             None \<Rightarrow> startTranscription (audioUrl s) (apiKey s) s1
           | Some file \<Rightarrow> startUpload file (apiKey s) s1)"

text \<open>
  handleCopy, and the callback of its \<^verbatim>\<open>setTimeout\<close>.
\<close>

definition handleCopy :: "app \<Rightarrow> app" where
  "handleCopy s =
     (case transcript s of
        None \<Rightarrow> s
      | Some t \<Rightarrow>
          (case t_text t of
             None \<Rightarrow> s
           | Some txt \<Rightarrow>
               if txt = [] then s
               else s\<lparr>clipboard := Some txt, isCopied := True,
                      copyTimeouts := Suc (copyTimeouts s)\<rparr>))"

definition copyTimeout :: "app \<Rightarrow> app" where
  "copyTimeout s =
     (if copyTimeouts s = 0 then s
      else s\<lparr>isCopied := False, copyTimeouts := copyTimeouts s - 1\<rparr>)"

definition handleUrlChange :: "string \<Rightarrow> app \<Rightarrow> app" where
  "handleUrlChange v s =
     (let s1 = s\<lparr>audioUrl := v\<rparr>
      in if v \<noteq> [] then
           (let s2 = s1\<lparr>selectedFile := None\<rparr>
            in case fileInputRef s2 of None \<Rightarrow> s2 | Some x \<Rightarrow> s2\<lparr>fileInputRef := Some []\<rparr>)
         else s1)"

text \<open>\<^verbatim>\<open>e.target.files\<close> is null or a list of files.\<close>

definition handleFileChange :: "File list option \<Rightarrow> app \<Rightarrow> app" where
  "handleFileChange files s =
     (let file = (case files of None \<Rightarrow> None | Some [] \<Rightarrow> None | Some (f # fs) \<Rightarrow> Some f);
          s1 = s\<lparr>selectedFile := file\<rparr>
      in if file \<noteq> None then s1\<lparr>audioUrl := []\<rparr> else s1)"

section \<open>Sequences of events\<close>

text \<open>
  The value a file input element shows for the chosen files: empty without a file,
  else the name of the first file behind the fixed prefix of the HTML standard.
\<close>

definition fakepath :: "File list option \<Rightarrow> string" where
  "fakepath files =
     (case files of
        None \<Rightarrow> []
      | Some [] \<Rightarrow> []
      | Some (f # fs) \<Rightarrow> ''C:'' @ [CHR 0x5C] @ ''fakepath'' @ [CHR 0x5C] @ file_name f)"

text \<open>The list without its \<open>n\<close>-th element.\<close>

definition dropAt :: "nat \<Rightarrow> 'a list \<Rightarrow> 'a list" where
  "dropAt n xs = take n xs @ drop (Suc n) xs"

text \<open>
  The answer of the service to a request: \<^verbatim>\<open>fetch\<close> settles and the body is read.
  The suspended handler that waited for the \<open>n\<close>-th request in flight runs on. An
  answer of the wrong kind for that request, or for no request, does not happen and
  changes nothing.
\<close>

datatype answer = UploadAnswer "string fetched" | JobAnswer "Transcript fetched"

definition deliver :: "nat \<Rightarrow> answer \<Rightarrow> app \<Rightarrow> app" where
  "deliver n ans s =
     (if n < length (pending s) then
        (let s1 = s\<lparr>pending := dropAt n (pending s)\<rparr>
         in case (pending s ! n, ans) of
              (AwaitUpload key, UploadAnswer net) \<Rightarrow> uploadAnswered key net s1
            | (AwaitCreateJob key, JobAnswer net) \<Rightarrow> createJobAnswered key net s1
            | (AwaitFetchJob, JobAnswer net) \<Rightarrow> fetchAnswered net s1
            | _ \<Rightarrow> s)
      else s)"

text \<open>
  What can happen to the mounted component: the user edits the credential, the URL or
  the file input (the browser sets the element's value before the handler runs),
  submits, resets or copies; one of the window's active interval timers fires
  (\<open>Tick n\<close>: the \<open>n\<close>-th of them, counted from 0); the answer to a request in flight
  arrives (\<open>Answer n\<close>: to the \<open>n\<close>-th of them); a copy time-out expires. Between two
  events every handler runs up to its next \<^verbatim>\<open>await\<close> of a request; an answer may
  arrive after any number of other events.
\<close>

datatype action =
    SetApiKey string
  | UrlChange string
  | FileChange "File list option"
  | Submit
  | Tick nat
  | Answer nat answer
  | Reset
  | Copy
  | CopyTimeout

fun step :: "action \<Rightarrow> app \<Rightarrow> app" where
  "step (SetApiKey k) s = s\<lparr>apiKey := k\<rparr>"
| "step (UrlChange v) s = handleUrlChange v s"
| "step (FileChange files) s =
     handleFileChange files
       (case fileInputRef s of None \<Rightarrow> s | Some v \<Rightarrow> s\<lparr>fileInputRef := Some (fakepath files)\<rparr>)"
| "step Submit s = handleSubmit s"
| "step (Tick n) s =
     (if n < length (timers s) then pollTick (snd (timers s ! n)) s else s)"
| "step (Answer n ans) s = deliver n ans s"
| "step Reset s = resetState s"
| "step Copy s = handleCopy s"
| "step CopyTimeout s = copyTimeout s"

fun run :: "action list \<Rightarrow> app \<Rightarrow> app" where
  "run [] s = s"
| "run (a # as) s = run as (step a s)"

text \<open>
  A submission whose answers arrive before anything else happens: the submit, the answer
  to the upload if there is one, the answer to the new job if it was asked for. The
  request of the submission is the last in flight.
\<close>

definition submitThrough :: "string fetched \<Rightarrow> Transcript fetched \<Rightarrow> app \<Rightarrow> app" where
  "submitThrough uploadNet submitNet s =
     run [Submit, Answer (length (pending s)) (UploadAnswer uploadNet),
          Answer (length (pending s)) (JobAnswer submitNet)] s"

text \<open>A tick of the \<open>n\<close>-th timer whose answer arrives before anything else happens.\<close>

definition tickThrough :: "nat \<Rightarrow> Transcript fetched \<Rightarrow> app \<Rightarrow> app" where
  "tickThrough n net s = run [Tick n, Answer (length (pending s)) (JobAnswer net)] s"

section \<open>Invariants and observations\<close>

text \<open>
  The window has no interval timer and the ref is null, or it has exactly one, the ref
  holds its handle, which is positive, and its callback closed over a non-empty
  credential.
\<close>

definition timerInv :: "app \<Rightarrow> bool" where
  "timerInv s =
     ((timers s = [] \<and> pollingIntervalRef s = None) \<or>
      (\<exists>h jid key. timers s = [(h, jid, key)] \<and> 0 < h \<and> h \<le> nextHandle s \<and>
         key \<noteq> [] \<and> pollingIntervalRef s = Some h))"

text \<open>The URL and the selected file are not both populated.\<close>

definition sourceExclusive :: "app \<Rightarrow> bool" where
  "sourceExclusive s = (audioUrl s = [] \<or> selectedFile s = None)"

text \<open>The effects logged between a state and a later one.\<close>

definition newEvents :: "app \<Rightarrow> app \<Rightarrow> event list" where
  "newEvents s s' = drop (length (trace s)) (trace s')"

text \<open>The events of the Transcription Client: an operation called, a request sent.\<close>

definition isClientEvent :: "event \<Rightarrow> bool" where
  "isClientEvent e = (case e of ClientCall op \<Rightarrow> True | HttpRequest r \<Rightarrow> True | _ \<Rightarrow> False)"

text \<open>
  What the presentation layer and the service can see of a state: the controller's
  cells, the closures of the active timers, without the timer handles, and the
  handlers waiting for an answer.
\<close>

definition view ::
  "app \<Rightarrow> string \<times> string \<times> File option \<times> string option \<times> Transcript option \<times> Status
     \<times> string option \<times> bool \<times> (string \<times> string) list \<times> pending list" where
  "view s = (apiKey s, audioUrl s, selectedFile s, fileInputRef s, transcript s, status s,
     error s, isCopied s, map snd (timers s), pending s)"

text \<open>An effect without its timer handle.\<close>

definition eraseHandle :: "event \<Rightarrow> event" where
  "eraseHandle e =
     (case e of IntervalSet h \<Rightarrow> IntervalSet 0 | IntervalCleared h \<Rightarrow> IntervalCleared 0
      | _ \<Rightarrow> e)"

text \<open>While the copied flag is up, the time-out that takes it down is pending.\<close>

definition copiedInv :: "app \<Rightarrow> bool" where
  "copiedInv s = (isCopied s \<longrightarrow> 0 < copyTimeouts s)"

text \<open>
  Two states that look the same and have logged the same effects, up to timer handles,
  since the first had logged \<open>n\<close> effects.
\<close>

definition sim :: "nat \<Rightarrow> app \<Rightarrow> app \<Rightarrow> bool" where
  "sim n a b =
     (view a = view b \<and> timerInv a \<and> timerInv b \<and> copiedInv a \<and> copiedInv b \<and>
      n \<le> length (trace a) \<and>
      map eraseHandle (drop n (trace a)) = map eraseHandle (trace b))"

section \<open>Example jobs and states\<close>

text \<open>A job as the service reports it, queued, completed and failed; and a second job.\<close>

definition queuedJob :: Transcript where
  "queuedJob = \<lparr>t_id = ''t1'', t_audio_url = ''https://x/a.mp3'', t_status = TQueued,
     t_text = None, t_error = None\<rparr>"

definition completedJob :: Transcript where
  "completedJob = \<lparr>t_id = ''t1'', t_audio_url = ''https://x/a.mp3'', t_status = TCompleted,
     t_text = Some ''hello'', t_error = None\<rparr>"

definition failedJob :: Transcript where
  "failedJob = \<lparr>t_id = ''t1'', t_audio_url = ''https://x/a.mp3'', t_status = TError,
     t_text = None, t_error = Some ''bad audio''\<rparr>"

definition secondJob :: Transcript where
  "secondJob = \<lparr>t_id = ''t9'', t_audio_url = ''https://x/b.mp3'', t_status = TQueued,
     t_text = None, t_error = None\<rparr>"

text \<open>Credential k1 and a URL entered, nothing submitted yet.\<close>

definition urlReadyState :: app where
  "urlReadyState = run [UrlChange ''https://x/a.mp3''] (initial ''k1'')"

text \<open>Credential k1 and a file selected, nothing submitted yet.\<close>

definition fileReadyState :: app where
  "fileReadyState = run [FileChange (Some [File ''a.mp3'' [1, 2]])] (initial ''k1'')"

text \<open>
  A URL submitted with credential k1, the job queued: the controller is polling.
\<close>

definition pollingState :: app where
  "pollingState =
     run [UrlChange ''https://x/a.mp3'', Submit,
          Answer 0 (JobAnswer (Inr (Ok (Inr queuedJob))))] (initial ''k1'')"

text \<open>The first tick has sent its request.\<close>

definition tickedState :: app where
  "tickedState =
     run [UrlChange ''https://x/a.mp3'', Submit,
          Answer 0 (JobAnswer (Inr (Ok (Inr queuedJob)))), Tick 0] (initial ''k1'')"

text \<open>While polling the user has emptied the credential.\<close>

definition pollingNoKeyState :: app where
  "pollingNoKeyState =
     run [UrlChange ''https://x/a.mp3'', Submit,
          Answer 0 (JobAnswer (Inr (Ok (Inr queuedJob)))), SetApiKey []] (initial ''k1'')"

text \<open>
  While polling the user empties the credential, submits, and enters the credential
  again: the workflow state is error and the poll timer of the first job still runs.
\<close>

definition staleTimerState :: app where
  "staleTimerState =
     run [UrlChange ''https://x/a.mp3'', Submit,
          Answer 0 (JobAnswer (Inr (Ok (Inr queuedJob)))),
          SetApiKey [], Submit, SetApiKey ''k1''] (initial ''k1'')"

text \<open>The queued job has completed on the first tick.\<close>

definition completedState :: app where
  "completedState =
     run [UrlChange ''https://x/a.mp3'', Submit,
          Answer 0 (JobAnswer (Inr (Ok (Inr queuedJob)))),
          Tick 0, Answer 0 (JobAnswer (Inr (Ok (Inr completedJob))))] (initial ''k1'')"

text \<open>
  The first tick's request is slow; the second tick's request is answered first, with a
  server error: the workflow state is error while the first request is still in flight.
\<close>

definition lateAnswerState :: app where
  "lateAnswerState =
     run [UrlChange ''https://x/a.mp3'', Submit,
          Answer 0 (JobAnswer (Inr (Ok (Inr queuedJob)))),
          Tick 0, Tick 0,
          Answer 1 (JobAnswer (Inr (NotOk 500 ''Internal Server Error'' (Inr (Some ''boom'')))))]
       (initial ''k1'')"

section \<open>The timer invariant\<close>

lemma timerInv_frame:
  "timers s' = timers s \<Longrightarrow> pollingIntervalRef s' = pollingIntervalRef s \<Longrightarrow>
   nextHandle s' = nextHandle s \<Longrightarrow> timerInv s' = timerInv s"
  by (simp add: timerInv_def)

lemma setStatus_simps [simp]:
  "status (setStatus v s) = v"
  "apiKey (setStatus v s) = apiKey s"
  "audioUrl (setStatus v s) = audioUrl s"
  "selectedFile (setStatus v s) = selectedFile s"
  "transcript (setStatus v s) = transcript s"
  "error (setStatus v s) = error s"
  "isCopied (setStatus v s) = isCopied s"
  "pollingIntervalRef (setStatus v s) = pollingIntervalRef s"
  "fileInputRef (setStatus v s) = fileInputRef s"
  "timers (setStatus v s) = timers s"
  "nextHandle (setStatus v s) = nextHandle s"
  "pending (setStatus v s) = pending s"
  "clipboard (setStatus v s) = clipboard s"
  "copyTimeouts (setStatus v s) = copyTimeouts s"
  "console (setStatus v s) = console s"
  "trace (setStatus v s) = trace s @ [StatusSet v]"
  by (simp_all add: setStatus_def)

lemma logEvents_simps [simp]:
  "status (logEvents evs s) = status s"
  "apiKey (logEvents evs s) = apiKey s"
  "audioUrl (logEvents evs s) = audioUrl s"
  "selectedFile (logEvents evs s) = selectedFile s"
  "transcript (logEvents evs s) = transcript s"
  "error (logEvents evs s) = error s"
  "isCopied (logEvents evs s) = isCopied s"
  "pollingIntervalRef (logEvents evs s) = pollingIntervalRef s"
  "fileInputRef (logEvents evs s) = fileInputRef s"
  "timers (logEvents evs s) = timers s"
  "nextHandle (logEvents evs s) = nextHandle s"
  "pending (logEvents evs s) = pending s"
  "clipboard (logEvents evs s) = clipboard s"
  "copyTimeouts (logEvents evs s) = copyTimeouts s"
  "console (logEvents evs s) = console s"
  "trace (logEvents evs s) = trace s @ evs"
  by (simp_all add: logEvents_def)

lemma suspend_simps [simp]:
  "status (suspend p s) = status s"
  "apiKey (suspend p s) = apiKey s"
  "audioUrl (suspend p s) = audioUrl s"
  "selectedFile (suspend p s) = selectedFile s"
  "transcript (suspend p s) = transcript s"
  "error (suspend p s) = error s"
  "isCopied (suspend p s) = isCopied s"
  "pollingIntervalRef (suspend p s) = pollingIntervalRef s"
  "fileInputRef (suspend p s) = fileInputRef s"
  "timers (suspend p s) = timers s"
  "nextHandle (suspend p s) = nextHandle s"
  "pending (suspend p s) = pending s @ [p]"
  "clipboard (suspend p s) = clipboard s"
  "copyTimeouts (suspend p s) = copyTimeouts s"
  "console (suspend p s) = console s"
  "trace (suspend p s) = trace s"
  by (simp_all add: suspend_def)

lemma timerInv_updates [simp]:
  "timerInv (setStatus v s) = timerInv s"
  "timerInv (logEvents evs s) = timerInv s"
  "timerInv (suspend p s) = timerInv s"
  "timerInv (s\<lparr>trace := tr\<rparr>) = timerInv s"
  "timerInv (s\<lparr>transcript := t\<rparr>) = timerInv s"
  "timerInv (s\<lparr>error := e\<rparr>) = timerInv s"
  "timerInv (s\<lparr>console := c\<rparr>) = timerInv s"
  "timerInv (s\<lparr>isCopied := b\<rparr>) = timerInv s"
  "timerInv (s\<lparr>audioUrl := u\<rparr>) = timerInv s"
  "timerInv (s\<lparr>selectedFile := f\<rparr>) = timerInv s"
  "timerInv (s\<lparr>fileInputRef := r\<rparr>) = timerInv s"
  "timerInv (s\<lparr>apiKey := k\<rparr>) = timerInv s"
  "timerInv (s\<lparr>pending := ps\<rparr>) = timerInv s"
  "timerInv (s\<lparr>clipboard := cb\<rparr>) = timerInv s"
  "timerInv (s\<lparr>copyTimeouts := n\<rparr>) = timerInv s"
  by (simp_all add: timerInv_def)

lemma stopPolling_timers:
  "timerInv s \<Longrightarrow> timers (stopPolling s) = [] \<and> pollingIntervalRef (stopPolling s) = None"
  by (auto simp: timerInv_def stopPolling_def clearInterval_def refTruthy_def split: option.splits)

lemma stopPolling_simps [simp]:
  "nextHandle (stopPolling s) = nextHandle s"
  "status (stopPolling s) = status s"
  "apiKey (stopPolling s) = apiKey s"
  "audioUrl (stopPolling s) = audioUrl s"
  "selectedFile (stopPolling s) = selectedFile s"
  "transcript (stopPolling s) = transcript s"
  "error (stopPolling s) = error s"
  "isCopied (stopPolling s) = isCopied s"
  "fileInputRef (stopPolling s) = fileInputRef s"
  "pending (stopPolling s) = pending s"
  "console (stopPolling s) = console s"
  by (simp_all add: stopPolling_def clearInterval_def)

lemma timerInv_stopPolling: "timerInv s \<Longrightarrow> timerInv (stopPolling s)"
  using stopPolling_timers [of s] by (simp add: timerInv_def)

lemma pollTranscript_timers:
  "timerInv s \<Longrightarrow> key \<noteq> [] \<Longrightarrow>
   timers (pollTranscript key jid s) = [(Suc (nextHandle s), jid, key)] \<and>
   pollingIntervalRef (pollTranscript key jid s) = Some (Suc (nextHandle s)) \<and>
   nextHandle (pollTranscript key jid s) = Suc (nextHandle s)"
  by (auto simp: timerInv_def pollTranscript_def clearInterval_def setInterval_def refTruthy_def Let_def)

lemma pollTranscript_simps [simp]:
  "status (pollTranscript key jid s) = status s"
  "apiKey (pollTranscript key jid s) = apiKey s"
  "audioUrl (pollTranscript key jid s) = audioUrl s"
  "selectedFile (pollTranscript key jid s) = selectedFile s"
  "transcript (pollTranscript key jid s) = transcript s"
  "error (pollTranscript key jid s) = error s"
  "isCopied (pollTranscript key jid s) = isCopied s"
  "fileInputRef (pollTranscript key jid s) = fileInputRef s"
  "pending (pollTranscript key jid s) = pending s"
  "console (pollTranscript key jid s) = console s"
  by (simp_all add: pollTranscript_def clearInterval_def setInterval_def Let_def)

lemma timerInv_pollTranscript: "timerInv s \<Longrightarrow> timerInv (pollTranscript key jid s)"
proof (cases "key = []")
  case True
  assume "timerInv s"
  with True show ?thesis by (simp add: pollTranscript_def)
next
  case False
  assume "timerInv s"
  from pollTranscript_timers [OF this False, of jid] False show ?thesis
    by (simp add: timerInv_def)
qed

lemma submitCatch_simps [simp]:
  "status (submitCatch e s) = Error"
  "apiKey (submitCatch e s) = apiKey s"
  "audioUrl (submitCatch e s) = audioUrl s"
  "selectedFile (submitCatch e s) = selectedFile s"
  "transcript (submitCatch e s) = transcript s"
  "error (submitCatch e s) = Some (msg_request_failed @ message e)"
  "isCopied (submitCatch e s) = isCopied s"
  "pollingIntervalRef (submitCatch e s) = pollingIntervalRef s"
  "fileInputRef (submitCatch e s) = fileInputRef s"
  "timers (submitCatch e s) = timers s"
  "nextHandle (submitCatch e s) = nextHandle s"
  "pending (submitCatch e s) = pending s"
  "console (submitCatch e s) = console s @ [e]"
  "trace (submitCatch e s) = trace s @ [StatusSet Error]"
  by (simp_all add: submitCatch_def Let_def)

lemma timerInv_submitCatch [simp]: "timerInv (submitCatch e s) = timerInv s"
  by (rule timerInv_frame) simp_all

lemma timerInv_pollCatch: "timerInv s \<Longrightarrow> timerInv (pollCatch e s)"
  by (simp add: pollCatch_def Let_def timerInv_stopPolling)

lemma timerInv_createJobAnswered: "timerInv s \<Longrightarrow> timerInv (createJobAnswered key net s)"
  by (simp add: createJobAnswered_def Let_def timerInv_pollTranscript
      split: sum.splits TranscriptStatus.splits)

lemma timerInv_startTranscription [simp]:
  "timerInv (startTranscription url key s) = timerInv s"
  by (simp add: startTranscription_def Let_def)

lemma timerInv_uploadAnswered [simp]: "timerInv (uploadAnswered key net s) = timerInv s"
  by (simp add: uploadAnswered_def split: sum.splits)

lemma timerInv_startUpload [simp]: "timerInv (startUpload f key s) = timerInv s"
  by (simp add: startUpload_def Let_def)

lemma timerInv_handleSubmit [simp]: "timerInv (handleSubmit s) = timerInv s"
  by (simp add: handleSubmit_def Let_def split: option.splits)

lemma timerInv_pollTick: "timerInv s \<Longrightarrow> timerInv (pollTick c s)"
  by (simp add: pollTick_def Let_def timerInv_pollCatch split: prod.splits)

lemma timerInv_fetchAnswered: "timerInv s \<Longrightarrow> timerInv (fetchAnswered net s)"
  by (simp add: fetchAnswered_def Let_def timerInv_stopPolling timerInv_pollCatch
      split: sum.splits)

lemma timerInv_deliver: "timerInv s \<Longrightarrow> timerInv (deliver n ans s)"
  by (simp add: deliver_def Let_def timerInv_createJobAnswered timerInv_fetchAnswered
      split: pending.splits answer.splits)

lemma timerInv_resetState: "timerInv s \<Longrightarrow> timerInv (resetState s)"
  by (simp add: resetState_def Let_def timerInv_stopPolling split: option.splits)

lemma timerInv_step: "timerInv s \<Longrightarrow> timerInv (step a s)"
  by (cases a)
    (simp_all add: timerInv_pollTick timerInv_deliver timerInv_resetState
      handleUrlChange_def handleFileChange_def handleCopy_def copyTimeout_def Let_def
      split: option.splits list.splits)

lemma timerInv_run: "timerInv s \<Longrightarrow> timerInv (run as s)"
  by (induction as arbitrary: s) (simp_all add: timerInv_step)

lemma timerInv_initial: "timerInv (initial k)"
  by (simp add: timerInv_def initial_def)

lemma timerInv_reachable: "timerInv (run as (initial k))"
  by (rule timerInv_run) (rule timerInv_initial)

lemma timerInv_length: "timerInv s \<Longrightarrow> length (timers s) \<le> 1"
  by (auto simp: timerInv_def)

lemma timerInv_fresh: "timerInv s \<Longrightarrow> Suc (nextHandle s) \<notin> fst ` set (timers s)"
  by (auto simp: timerInv_def)

lemma resetState_fields:
  "transcript (resetState s) = None" "error (resetState s) = None"
  "status (resetState s) = Idle" "audioUrl (resetState s) = []"
  "selectedFile (resetState s) = None" "isCopied (resetState s) = False"
  "apiKey (resetState s) = apiKey s" "pending (resetState s) = pending s"
  "fileInputRef (resetState s) = map_option (\<lambda>v. []) (fileInputRef s)"
  by (simp_all add: resetState_def Let_def split: option.splits)

lemma resetState_timers:
  "timerInv s \<Longrightarrow> timers (resetState s) = [] \<and> pollingIntervalRef (resetState s) = None"
proof -
  assume inv: "timerInv s"
  let ?s5 = "(setStatus Idle
      ((case fileInputRef (s\<lparr>audioUrl := [], selectedFile := None\<rparr>) of
          None \<Rightarrow> s\<lparr>audioUrl := [], selectedFile := None\<rparr>
        | Some v \<Rightarrow> s\<lparr>audioUrl := [], selectedFile := None, fileInputRef := Some []\<rparr>)
       \<lparr>transcript := None\<rparr>))\<lparr>error := None, isCopied := False\<rparr>"
  have "timerInv ?s5" using inv by (simp split: option.splits)
  from stopPolling_timers [OF this] show ?thesis
    by (simp add: resetState_def Let_def)
qed

section \<open>Answers to the last request\<close>

lemma dropAt_last [simp]: "dropAt (length ps) (ps @ [p]) = ps"
  by (simp add: dropAt_def)

lemma deliver_none: "length (pending s) \<le> n \<Longrightarrow> deliver n ans s = s"
  by (simp add: deliver_def)

lemma deliver_upload:
  "pending s = ps @ [AwaitUpload key] \<Longrightarrow>
   deliver (length ps) (UploadAnswer net) s = uploadAnswered key net (s\<lparr>pending := ps\<rparr>)"
  by (simp add: deliver_def)

lemma deliver_createJob:
  "pending s = ps @ [AwaitCreateJob key] \<Longrightarrow>
   deliver (length ps) (JobAnswer net) s = createJobAnswered key net (s\<lparr>pending := ps\<rparr>)"
  by (simp add: deliver_def)

lemma deliver_fetchJob:
  "pending s = ps @ [AwaitFetchJob] \<Longrightarrow>
   deliver (length ps) (JobAnswer net) s = fetchAnswered net (s\<lparr>pending := ps\<rparr>)"
  by (simp add: deliver_def)

lemma deliver_upload_mismatch:
  "pending s = ps @ [AwaitCreateJob key] \<Longrightarrow> deliver (length ps) (UploadAnswer net) s = s"
  by (simp add: deliver_def)

lemma startTranscription_simps [simp]:
  "apiKey (startTranscription url key s) = apiKey s"
  "audioUrl (startTranscription url key s) = audioUrl s"
  "selectedFile (startTranscription url key s) = selectedFile s"
  "transcript (startTranscription url key s) = transcript s"
  "isCopied (startTranscription url key s) = isCopied s"
  "pollingIntervalRef (startTranscription url key s) = pollingIntervalRef s"
  "fileInputRef (startTranscription url key s) = fileInputRef s"
  "timers (startTranscription url key s) = timers s"
  "nextHandle (startTranscription url key s) = nextHandle s"
  by (simp_all add: startTranscription_def Let_def)

lemma startTranscription_key:
  "key \<noteq> [] \<Longrightarrow>
   startTranscription url key s =
     suspend (AwaitCreateJob key)
       (logEvents [ClientCall OpCreateJob, HttpRequest (transcriptionRequest url key)]
          (setStatus Submitting s))"
  by (simp add: startTranscription_def Let_def logEvents_def)

lemma startUpload_key:
  "key \<noteq> [] \<Longrightarrow>
   startUpload f key s =
     suspend (AwaitUpload key)
       (logEvents [ClientCall OpUpload, HttpRequest (uploadRequest f key)]
          (setStatus Uploading s))"
  by (simp add: startUpload_def Let_def logEvents_def)

text \<open>Taking the last request out of flight again undoes the suspension.\<close>

lemma unsuspend: "pending s = ps \<Longrightarrow> (suspend p s)\<lparr>pending := ps\<rparr> = s"
  by (auto simp: suspend_def)

lemma submitThrough_rejected:
  assumes "apiKey s = [] \<or> (audioUrl s = [] \<and> selectedFile s = None)
     \<or> status s \<in> set [Uploading, Submitting, Polling]"
  shows "submitThrough uploadNet submitNet s = handleSubmit s"
proof -
  from assms have "pending (handleSubmit s) = pending s"
    by (auto simp: handleSubmit_def)
  then show ?thesis
    by (simp add: submitThrough_def deliver_none)
qed

lemma submitThrough_url:
  assumes "apiKey s \<noteq> []" and "selectedFile s = None" and "audioUrl s \<noteq> []"
    and "status s \<notin> set [Uploading, Submitting, Polling]"
  shows "submitThrough uploadNet submitNet s =
    createJobAnswered (apiKey s) submitNet
      (logEvents [ClientCall OpCreateJob, HttpRequest (transcriptionRequest (audioUrl s) (apiKey s))]
         (setStatus Submitting (s\<lparr>error := None, transcript := None, isCopied := False\<rparr>)))"
    (is "_ = createJobAnswered _ _ ?s2")
proof -
  have h: "handleSubmit s = suspend (AwaitCreateJob (apiKey s)) ?s2"
    using assms by (simp add: handleSubmit_def startTranscription_key)
  have p: "pending (suspend (AwaitCreateJob (apiKey s)) ?s2) = pending s @ [AwaitCreateJob (apiKey s)]"
    by simp
  have q: "(suspend (AwaitCreateJob (apiKey s)) ?s2)\<lparr>pending := pending s\<rparr> = ?s2"
    by (rule unsuspend) simp
  show ?thesis
    unfolding submitThrough_def
    by (simp add: h deliver_upload_mismatch [OF p] deliver_createJob [OF p] q)
qed

lemma submitThrough_file:
  assumes "apiKey s \<noteq> []" and "selectedFile s = Some f"
    and "status s \<notin> set [Uploading, Submitting, Polling]"
  shows "submitThrough uploadNet submitNet s =
    (case uploadResponse uploadNet of
       Inl err \<Rightarrow>
         submitCatch err
           (logEvents [ClientCall OpUpload, HttpRequest (uploadRequest f (apiKey s))]
              (setStatus Uploading (s\<lparr>error := None, transcript := None, isCopied := False\<rparr>)))
     | Inr url \<Rightarrow>
         createJobAnswered (apiKey s) submitNet
           (logEvents [ClientCall OpCreateJob, HttpRequest (transcriptionRequest url (apiKey s))]
              (setStatus Submitting
                 (logEvents [ClientCall OpUpload, HttpRequest (uploadRequest f (apiKey s))]
                    (setStatus Uploading
                       (s\<lparr>error := None, transcript := None, isCopied := False\<rparr>))))))"
proof -
  let ?s2 = "logEvents [ClientCall OpUpload, HttpRequest (uploadRequest f (apiKey s))]
      (setStatus Uploading (s\<lparr>error := None, transcript := None, isCopied := False\<rparr>))"
  have h: "handleSubmit s = suspend (AwaitUpload (apiKey s)) ?s2"
    using assms by (simp add: handleSubmit_def startUpload_key)
  have p: "pending (suspend (AwaitUpload (apiKey s)) ?s2) = pending s @ [AwaitUpload (apiKey s)]"
    by simp
  have q: "(suspend (AwaitUpload (apiKey s)) ?s2)\<lparr>pending := pending s\<rparr> = ?s2"
    by (rule unsuspend) simp
  have u: "deliver (length (pending s)) (UploadAnswer uploadNet) (handleSubmit s)
      = uploadAnswered (apiKey s) uploadNet ?s2"
    by (simp add: h deliver_upload [OF p] q)
  show ?thesis
  proof (cases "uploadResponse uploadNet")
    case (Inl err)
    then have "uploadAnswered (apiKey s) uploadNet ?s2 = submitCatch err ?s2"
      by (simp add: uploadAnswered_def)
    moreover have "pending (submitCatch err ?s2) = pending s" by simp
    ultimately show ?thesis
      using Inl u by (simp add: submitThrough_def deliver_none)
  next
    case (Inr url)
    let ?s3 = "logEvents [ClientCall OpCreateJob, HttpRequest (transcriptionRequest url (apiKey s))]
      (setStatus Submitting ?s2)"
    from Inr assms(1) have a: "uploadAnswered (apiKey s) uploadNet ?s2
        = suspend (AwaitCreateJob (apiKey s)) ?s3"
      by (simp add: uploadAnswered_def startTranscription_key)
    have p3: "pending (suspend (AwaitCreateJob (apiKey s)) ?s3)
        = pending s @ [AwaitCreateJob (apiKey s)]"
      by simp
    have q3: "(suspend (AwaitCreateJob (apiKey s)) ?s3)\<lparr>pending := pending s\<rparr> = ?s3"
      by (rule unsuspend) simp
    show ?thesis
      using Inr u a
      by (simp add: submitThrough_def deliver_createJob [OF p3] q3)
  qed
qed

lemma tickThrough_eq:
  assumes "n < length (timers s)" and "timers s ! n = (h, jid, key)" and "key \<noteq> []"
  shows "tickThrough n net s =
    fetchAnswered net
      (logEvents [ClientCall OpFetchJob, HttpRequest (resultRequest jid key)] s)"
    (is "_ = fetchAnswered _ ?s1")
proof -
  have t: "step (Tick n) s = suspend AwaitFetchJob ?s1"
    using assms by (simp add: pollTick_def Let_def logEvents_def)
  have p: "pending (suspend AwaitFetchJob ?s1) = pending s @ [AwaitFetchJob]" by simp
  have q: "(suspend AwaitFetchJob ?s1)\<lparr>pending := pending s\<rparr> = ?s1"
    by (rule unsuspend) simp
  have "tickThrough n net s = deliver (length (pending s)) (JobAnswer net) (step (Tick n) s)"
    by (simp add: tickThrough_def del: step.simps(5))
  then show ?thesis
    by (simp add: t deliver_fetchJob [OF p] q del: step.simps(5))
qed

section \<open>At most one poll timer\<close>

lemma createJobAnswered_polling:
  assumes "timerInv s" and "key \<noteq> []" and "status (createJobAnswered key net s) = Polling"
  shows "\<exists>jid. timers (createJobAnswered key net s) = [(Suc (nextHandle s), jid, key)]"
proof (cases "transcriptionResponse net")
  case (Inl err)
  with assms(3) show ?thesis by (simp add: createJobAnswered_def)
next
  case (Inr t)
  let ?s3 = "setStatus Polling (s\<lparr>transcript := Some t\<rparr>)"
  have inv: "timerInv ?s3" and nh: "nextHandle ?s3 = nextHandle s"
    using assms(1) by simp_all
  from pollTranscript_timers [OF inv assms(2)] nh
  have "timers (pollTranscript key (t_id t) ?s3) = [(Suc (nextHandle s), t_id t, key)]"
    by simp
  with Inr assms(3) show ?thesis
    by (cases "t_status t") (simp_all add: createJobAnswered_def Let_def)
qed

lemma handleSubmit_rejected:
  assumes "apiKey s = [] \<or> (audioUrl s = [] \<and> selectedFile s = None)
     \<or> status s \<in> set [Uploading, Submitting, Polling]"
  shows "status (handleSubmit s) = Error \<or> handleSubmit s = s"
  using assms by (auto simp: handleSubmit_def)

lemma submitThrough_polling:
  assumes "timerInv s" and "status s \<noteq> Polling"
    and "status (submitThrough uploadNet submitNet s) = Polling"
  shows "\<exists>jid. timers (submitThrough uploadNet submitNet s) = [(Suc (nextHandle s), jid, apiKey s)]"
proof -
  have rej: "\<not> (apiKey s = [] \<or> (audioUrl s = [] \<and> selectedFile s = None)
     \<or> status s \<in> set [Uploading, Submitting, Polling])"
  proof
    assume r: "apiKey s = [] \<or> (audioUrl s = [] \<and> selectedFile s = None)
     \<or> status s \<in> set [Uploading, Submitting, Polling]"
    from submitThrough_rejected [OF r, of uploadNet submitNet] handleSubmit_rejected [OF r]
      assms(2,3)
    show False by auto
  qed
  then have key: "apiKey s \<noteq> []"
    and st: "status s \<notin> set [Uploading, Submitting, Polling]"
    by auto
  show ?thesis
  proof (cases "selectedFile s")
    case None
    with rej have url: "audioUrl s \<noteq> []" by simp
    let ?s2 = "logEvents [ClientCall OpCreateJob,
        HttpRequest (transcriptionRequest (audioUrl s) (apiKey s))]
      (setStatus Submitting (s\<lparr>error := None, transcript := None, isCopied := False\<rparr>))"
    have eq: "submitThrough uploadNet submitNet s = createJobAnswered (apiKey s) submitNet ?s2"
      using key None url st by (rule submitThrough_url)
    have "timerInv ?s2" using assms(1) by simp
    from createJobAnswered_polling [OF this key, of submitNet] assms(3) eq
    show ?thesis by simp
  next
    case (Some f)
    note eq = submitThrough_file [OF key Some st, of uploadNet submitNet]
    show ?thesis
    proof (cases "uploadResponse uploadNet")
      case (Inl err)
      with eq assms(3) show ?thesis by simp
    next
      case (Inr url)
      let ?s3 = "logEvents [ClientCall OpCreateJob,
          HttpRequest (transcriptionRequest url (apiKey s))]
        (setStatus Submitting
           (logEvents [ClientCall OpUpload, HttpRequest (uploadRequest f (apiKey s))]
              (setStatus Uploading (s\<lparr>error := None, transcript := None, isCopied := False\<rparr>))))"
      from eq Inr
      have eq': "submitThrough uploadNet submitNet s = createJobAnswered (apiKey s) submitNet ?s3"
        by simp
      have "timerInv ?s3" using assms(1) by simp
      from createJobAnswered_polling [OF this key, of submitNet] assms(3) eq'
      show ?thesis by simp
    qed
  qed
qed

section \<open>Evaluation of the examples\<close>

lemmas handler_defs =
  handleSubmit_def startUpload_def uploadAnswered_def startTranscription_def
  createJobAnswered_def submitCatch_def pollTranscript_def pollTick_def pollCatch_def
  fetchAnswered_def deliver_def dropAt_def suspend_def logEvents_def setStatus_def
  resetState_def stopPolling_def refTruthy_def clearInterval_def setInterval_def
  handleUrlChange_def handleFileChange_def handleCopy_def copyTimeout_def
  uploadResponse_def transcriptionResponse_def resultResponse_def
  js_or_def js_template_def Let_def

lemma string_of_nat_500: "string_of_nat 500 = ''500''"
  by code_simp

lemma string_of_nat_404: "string_of_nat 404 = ''404''"
  by code_simp

lemma string_of_nat_502: "string_of_nat 502 = ''502''"
  by code_simp

lemma pollingState_eval:
  "pollingState = (initial ''k1'')\<lparr>audioUrl := ''https://x/a.mp3'', transcript := Some queuedJob,
     status := Polling, pollingIntervalRef := Some 1, timers := [(1, ''t1'', ''k1'')],
     nextHandle := 1,
     trace := [StatusSet Submitting, ClientCall OpCreateJob,
       HttpRequest (transcriptionRequest ''https://x/a.mp3'' ''k1''),
       StatusSet Polling, IntervalSet 1]\<rparr>"
  by (simp add: pollingState_def handler_defs initial_def queuedJob_def)

lemma tickedState_eval:
  "tickedState = pollingState\<lparr>pending := [AwaitFetchJob],
     trace := trace pollingState @ [ClientCall OpFetchJob,
       HttpRequest (resultRequest ''t1'' ''k1'')]\<rparr>"
  by (simp add: tickedState_def pollingState_def handler_defs initial_def queuedJob_def)

lemma pollingNoKeyState_eval: "pollingNoKeyState = pollingState\<lparr>apiKey := []\<rparr>"
  by (simp add: pollingNoKeyState_def pollingState_def)

lemma staleTimerState_eval:
  "timers staleTimerState = [(1, ''t1'', ''k1'')] \<and> status staleTimerState = Error \<and>
   apiKey staleTimerState = ''k1'' \<and> audioUrl staleTimerState = ''https://x/a.mp3'' \<and>
   selectedFile staleTimerState = None \<and> pollingIntervalRef staleTimerState = Some 1 \<and>
   nextHandle staleTimerState = 1 \<and> pending staleTimerState = []"
  by (simp add: staleTimerState_def handler_defs initial_def queuedJob_def)

lemma completedState_eval:
  "status completedState = Completed \<and> apiKey completedState = ''k1'' \<and>
   transcript completedState = Some completedJob \<and> timers completedState = [] \<and>
   pending completedState = []"
  by (simp add: completedState_def handler_defs initial_def queuedJob_def completedJob_def)

lemma lateAnswerState_eval:
  "status lateAnswerState = Error \<and> apiKey lateAnswerState = ''k1'' \<and>
   timers lateAnswerState = [] \<and> pending lateAnswerState = [AwaitFetchJob] \<and>
   error lateAnswerState = Some msg_poll_failed"
  by (simp add: lateAnswerState_def handler_defs initial_def queuedJob_def)

text \<open>
  Claim C1, as stated, fails in its last part: a submission that starts while a timer
  runs does not cancel that timer unless it enters the polling state. Here the
  submission finds the timer of an earlier job and a job that is completed at once;
  the timer is still there afterwards.
\<close>

theorem submission_keeps_stale_timer:
  "timers staleTimerState = [(1, ''t1'', ''k1'')] \<and>
   status staleTimerState = Error \<and>
   status (submitThrough (Inl (JsError ''unused'')) (Inr (Ok (Inr completedJob))) staleTimerState)
     = Completed \<and>
   timers (submitThrough (Inl (JsError ''unused'')) (Inr (Ok (Inr completedJob))) staleTimerState)
     = [(1, ''t1'', ''k1'')]"
proof -
  have ev: "apiKey staleTimerState \<noteq> []" "selectedFile staleTimerState = None"
    "audioUrl staleTimerState \<noteq> []"
    "status staleTimerState \<notin> set [Uploading, Submitting, Polling]"
    using staleTimerState_eval by simp_all
  from submitThrough_url [OF ev, of "Inl (JsError ''unused'')" "Inr (Ok (Inr completedJob))"]
    staleTimerState_eval
  show ?thesis
    by (simp add: createJobAnswered_def transcriptionResponse_def completedJob_def)
qed

text \<open>
  Claim C1, amended. After every sequence of events, answers that arrive late included,
  at most one poll timer is active; pollTranscript (entering the polling state) leaves
  exactly the timer it creates, whose handle no earlier timer had; a reset leaves no
  timer; and a submission that enters the polling state leaves exactly one timer, a new
  one.
\<close>

theorem one_poll_timer:
  assumes "s = run as (initial k)"
  shows "length (timers s) \<le> 1 \<and>
    (key \<noteq> [] \<longrightarrow>
       (\<exists>h. timers (pollTranscript key jid s) = [(h, jid, key)] \<and> h \<notin> fst ` set (timers s))) \<and>
    timers (resetState s) = [] \<and>
    (status s \<noteq> Polling \<and> status (submitThrough uploadNet submitNet s) = Polling \<longrightarrow>
       (\<exists>h j. timers (submitThrough uploadNet submitNet s) = [(h, j, apiKey s)]
          \<and> h \<notin> fst ` set (timers s)))"
proof -
  have inv: "timerInv s"
    unfolding assms by (rule timerInv_reachable)
  have a: "length (timers s) \<le> 1"
    using inv by (rule timerInv_length)
  have fresh: "Suc (nextHandle s) \<notin> fst ` set (timers s)"
    using inv by (rule timerInv_fresh)
  have b: "\<exists>h. timers (pollTranscript key jid s) = [(h, jid, key)] \<and> h \<notin> fst ` set (timers s)"
    if "key \<noteq> []"
    using pollTranscript_timers [OF inv that, of jid] fresh by blast
  have c: "timers (resetState s) = []"
    using resetState_timers [OF inv] by simp
  have d: "\<exists>h j. timers (submitThrough uploadNet submitNet s) = [(h, j, apiKey s)]
          \<and> h \<notin> fst ` set (timers s)"
    if "status s \<noteq> Polling" "status (submitThrough uploadNet submitNet s) = Polling"
    using submitThrough_polling [OF inv that] fresh by blast
  from a b c d show ?thesis by blast
qed

theorem one_poll_timer_witness:
  "staleTimerState = run [UrlChange ''https://x/a.mp3'', Submit,
          Answer 0 (JobAnswer (Inr (Ok (Inr queuedJob)))),
          SetApiKey [], Submit, SetApiKey ''k1''] (initial ''k1'') \<and>
   ''k1'' \<noteq> [] \<and> status staleTimerState \<noteq> Polling \<and>
   status (submitThrough (Inl (JsError ''unused'')) (Inr (Ok (Inr queuedJob))) staleTimerState)
     = Polling \<and>
   length (timers staleTimerState) \<le> 1 \<and>
   timers (resetState staleTimerState) = [] \<and>
   (\<exists>h. timers (pollTranscript ''k1'' ''t1'' staleTimerState) = [(h, ''t1'', ''k1'')]
      \<and> h \<notin> fst ` set (timers staleTimerState)) \<and>
   (\<exists>h j. timers (submitThrough (Inl (JsError ''unused'')) (Inr (Ok (Inr queuedJob))) staleTimerState)
      = [(h, j, apiKey staleTimerState)] \<and> h \<notin> fst ` set (timers staleTimerState))"
proof -
  have eq: "staleTimerState = run [UrlChange ''https://x/a.mp3'', Submit,
          Answer 0 (JobAnswer (Inr (Ok (Inr queuedJob)))),
          SetApiKey [], Submit, SetApiKey ''k1''] (initial ''k1'')"
    by (rule staleTimerState_def)
  note main = one_poll_timer [OF eq, of "''k1''" "''t1''" "Inl (JsError ''unused'')"
      "Inr (Ok (Inr queuedJob))"]
  have s: "apiKey staleTimerState \<noteq> []" "selectedFile staleTimerState = None"
    "audioUrl staleTimerState \<noteq> []"
    "status staleTimerState \<notin> set [Uploading, Submitting, Polling]"
    using staleTimerState_eval by simp_all
  have ev: "''k1'' \<noteq> []" "status staleTimerState \<noteq> Polling"
    "status (submitThrough (Inl (JsError ''unused'')) (Inr (Ok (Inr queuedJob))) staleTimerState)
       = Polling"
    using staleTimerState_eval
      submitThrough_url [OF s, of "Inl (JsError ''unused'')" "Inr (Ok (Inr queuedJob))"]
    by (simp_all add: createJobAnswered_def transcriptionResponse_def queuedJob_def)
  from eq main ev show ?thesis by blast
qed

section \<open>Source inputs\<close>

lemma sourceExclusive_updates [simp]:
  "sourceExclusive (setStatus v s) = sourceExclusive s"
  "sourceExclusive (logEvents evs s) = sourceExclusive s"
  "sourceExclusive (suspend p s) = sourceExclusive s"
  "sourceExclusive (stopPolling s) = sourceExclusive s"
  "sourceExclusive (pollTranscript key jid s) = sourceExclusive s"
  "sourceExclusive (submitCatch e s) = sourceExclusive s"
  "sourceExclusive (s\<lparr>trace := tr\<rparr>) = sourceExclusive s"
  "sourceExclusive (s\<lparr>transcript := t\<rparr>) = sourceExclusive s"
  "sourceExclusive (s\<lparr>error := er\<rparr>) = sourceExclusive s"
  "sourceExclusive (s\<lparr>console := c\<rparr>) = sourceExclusive s"
  "sourceExclusive (s\<lparr>isCopied := b\<rparr>) = sourceExclusive s"
  "sourceExclusive (s\<lparr>pollingIntervalRef := r\<rparr>) = sourceExclusive s"
  "sourceExclusive (s\<lparr>fileInputRef := fv\<rparr>) = sourceExclusive s"
  "sourceExclusive (s\<lparr>apiKey := k\<rparr>) = sourceExclusive s"
  "sourceExclusive (s\<lparr>pending := ps\<rparr>) = sourceExclusive s"
  "sourceExclusive (s\<lparr>clipboard := cb\<rparr>) = sourceExclusive s"
  "sourceExclusive (s\<lparr>copyTimeouts := n\<rparr>) = sourceExclusive s"
  "sourceExclusive (s\<lparr>timers := ts\<rparr>) = sourceExclusive s"
  "sourceExclusive (s\<lparr>nextHandle := h\<rparr>) = sourceExclusive s"
  by (simp_all add: sourceExclusive_def)

lemma sourceExclusive_pollCatch [simp]: "sourceExclusive (pollCatch e s) = sourceExclusive s"
  by (simp add: pollCatch_def Let_def)

lemma sourceExclusive_createJobAnswered [simp]:
  "sourceExclusive (createJobAnswered key net s) = sourceExclusive s"
  by (simp add: createJobAnswered_def Let_def split: sum.splits TranscriptStatus.splits)

lemma sourceExclusive_startTranscription [simp]:
  "sourceExclusive (startTranscription url key s) = sourceExclusive s"
  by (simp add: startTranscription_def Let_def)

lemma sourceExclusive_uploadAnswered [simp]:
  "sourceExclusive (uploadAnswered key net s) = sourceExclusive s"
  by (simp add: uploadAnswered_def split: sum.splits)

lemma sourceExclusive_startUpload [simp]:
  "sourceExclusive (startUpload f key s) = sourceExclusive s"
  by (simp add: startUpload_def Let_def)

lemma sourceExclusive_handleSubmit [simp]: "sourceExclusive (handleSubmit s) = sourceExclusive s"
  by (simp add: handleSubmit_def Let_def split: option.splits)

lemma sourceExclusive_pollTick [simp]: "sourceExclusive (pollTick c s) = sourceExclusive s"
  by (simp add: pollTick_def Let_def split: prod.splits)

lemma sourceExclusive_fetchAnswered [simp]:
  "sourceExclusive (fetchAnswered net s) = sourceExclusive s"
  by (simp add: fetchAnswered_def Let_def split: sum.splits)

lemma sourceExclusive_deliver [simp]: "sourceExclusive (deliver n ans s) = sourceExclusive s"
  by (simp add: deliver_def Let_def split: pending.splits answer.splits)

lemma sourceExclusive_resetState [simp]: "sourceExclusive (resetState s)"
  by (simp add: resetState_def Let_def split: option.splits) (simp add: sourceExclusive_def)

lemma sourceExclusive_handleUrlChange:
  "sourceExclusive s \<Longrightarrow> sourceExclusive (handleUrlChange v s)"
  by (auto simp: sourceExclusive_def handleUrlChange_def Let_def split: option.splits)

lemma sourceExclusive_handleFileChange:
  "sourceExclusive s \<Longrightarrow> sourceExclusive (handleFileChange files s)"
  by (auto simp: sourceExclusive_def handleFileChange_def Let_def split: option.splits list.splits)

lemma sourceExclusive_handleCopy [simp]: "sourceExclusive (handleCopy s) = sourceExclusive s"
  by (simp add: handleCopy_def sourceExclusive_def split: option.splits)

lemma sourceExclusive_copyTimeout [simp]: "sourceExclusive (copyTimeout s) = sourceExclusive s"
  by (simp add: copyTimeout_def sourceExclusive_def)

lemma sourceExclusive_step: "sourceExclusive s \<Longrightarrow> sourceExclusive (step a s)"
  by (cases a)
    (simp_all add: sourceExclusive_handleUrlChange sourceExclusive_handleFileChange
      split: option.splits)

lemma sourceExclusive_run: "sourceExclusive s \<Longrightarrow> sourceExclusive (run as s)"
  by (induction as arbitrary: s) (simp_all add: sourceExclusive_step)

text \<open>
  Claim C2. After every sequence of events the URL and the selected file are not both
  populated; setting a non-empty URL clears the selected file, and selecting a file
  clears the URL.
\<close>

theorem source_mutually_exclusive:
  "sourceExclusive (run as (initial k)) \<and>
   (v \<noteq> [] \<longrightarrow> audioUrl (handleUrlChange v s) = v \<and> selectedFile (handleUrlChange v s) = None) \<and>
   selectedFile (handleFileChange (Some (f # fs)) s) = Some f \<and>
   audioUrl (handleFileChange (Some (f # fs)) s) = []"
proof -
  have "sourceExclusive (initial k)"
    by (simp add: sourceExclusive_def initial_def)
  then have "sourceExclusive (run as (initial k))"
    by (rule sourceExclusive_run)
  then show ?thesis
    by (simp add: handleUrlChange_def handleFileChange_def Let_def split: option.splits)
qed

theorem source_mutually_exclusive_witness:
  "sourceExclusive (run [FileChange (Some [File ''a.mp3'' [1, 2]]), UrlChange ''https://x/a.mp3'']
      (initial ''k1'')) \<and>
   selectedFile (handleUrlChange ''https://x/a.mp3''
      (handleFileChange (Some [File ''a.mp3'' [1, 2]]) (initial ''k1''))) = None \<and>
   audioUrl (handleFileChange (Some [File ''a.mp3'' [1, 2]])
      (handleUrlChange ''https://x/a.mp3'' (initial ''k1''))) = []"
  using source_mutually_exclusive [of "[FileChange (Some [File ''a.mp3'' [1, 2]]), UrlChange ''https://x/a.mp3'']"
      "''k1''" "''https://x/a.mp3''" "handleFileChange (Some [File ''a.mp3'' [1, 2]]) (initial ''k1'')"
      "File ''a.mp3'' [1, 2]" "[]" ]
    source_mutually_exclusive [of "[]" "''k1''" "''https://x/a.mp3''" "handleUrlChange ''https://x/a.mp3'' (initial ''k1'')"
      "File ''a.mp3'' [1, 2]" "[]" ]
  by simp

section \<open>Submissions that do not start\<close>

text \<open>
  Claim C3. A submission with an empty credential sets the workflow state to error with
  the message that asks for the key; the only effect logged is that \<^verbatim>\<open>setStatus\<close>,
  so no client operation is called and no request is sent; no request is in flight
  for it, and whatever the service would answer changes nothing.
\<close>

theorem submit_without_credential:
  "apiKey s = [] \<Longrightarrow>
   status (handleSubmit s) = Error \<and>
   error (handleSubmit s) = Some msg_insert_key \<and>
   newEvents s (handleSubmit s) = [StatusSet Error] \<and>
   filter isClientEvent (newEvents s (handleSubmit s)) = [] \<and>
   pending (handleSubmit s) = pending s \<and>
   submitThrough uploadNet submitNet s = handleSubmit s"
  by (simp add: handleSubmit_def newEvents_def isClientEvent_def submitThrough_def deliver_none)

theorem submit_without_credential_witness:
  "apiKey (step (UrlChange ''https://x/a.mp3'') (initial [])) = [] \<and>
   status (handleSubmit (step (UrlChange ''https://x/a.mp3'') (initial []))) = Error \<and>
   newEvents (step (UrlChange ''https://x/a.mp3'') (initial []))
     (handleSubmit (step (UrlChange ''https://x/a.mp3'') (initial []))) = [StatusSet Error] \<and>
   status (submitThrough (Inl (JsError ''offline'')) (Inr (Ok (Inr completedJob)))
     (step (UrlChange ''https://x/a.mp3'') (initial []))) = Error"
  using submit_without_credential [of "step (UrlChange ''https://x/a.mp3'') (initial [])"
      "Inl (JsError ''offline'')" "Inr (Ok (Inr completedJob))"]
  by (simp add: initial_def handleUrlChange_def)

text \<open>
  Claim C9, as stated, fails for a job in flight: the credential is checked before the
  guard, so a submit while polling with the credential emptied sets the workflow state
  to error and shows the message that asks for the key.
\<close>

theorem submit_in_flight_without_credential:
  "status pollingNoKeyState = Polling \<and> apiKey pollingNoKeyState = [] \<and>
   error pollingNoKeyState = None \<and>
   status (handleSubmit pollingNoKeyState) = Error \<and>
   error (handleSubmit pollingNoKeyState) = Some msg_insert_key \<and>
   handleSubmit pollingNoKeyState \<noteq> pollingNoKeyState"
proof -
  have a: "status pollingNoKeyState = Polling" "apiKey pollingNoKeyState = []"
    "error pollingNoKeyState = None"
    by (simp_all add: pollingNoKeyState_eval pollingState_eval initial_def)
  then have b: "status (handleSubmit pollingNoKeyState) = Error"
    "error (handleSubmit pollingNoKeyState) = Some msg_insert_key"
    by (simp_all add: handleSubmit_def)
  from a(1) b(1) have "handleSubmit pollingNoKeyState \<noteq> pollingNoKeyState"
    by auto
  with a b show ?thesis by simp
qed

text \<open>
  Claim C9, amended. With a non-empty credential, a submit while a job is in flight
  (uploading, submitting or polling) or while neither a URL nor a file is set leaves the
  whole state as it is, the log of effects and the requests in flight included, and
  whatever the service would answer changes nothing.
\<close>

theorem submit_noop:
  "apiKey s \<noteq> [] \<Longrightarrow>
   status s = Uploading \<or> status s = Submitting \<or> status s = Polling
     \<or> (audioUrl s = [] \<and> selectedFile s = None) \<Longrightarrow>
   handleSubmit s = s \<and>
   newEvents s (handleSubmit s) = [] \<and>
   submitThrough uploadNet submitNet s = s"
proof -
  assume key: "apiKey s \<noteq> []"
    and g: "status s = Uploading \<or> status s = Submitting \<or> status s = Polling
     \<or> (audioUrl s = [] \<and> selectedFile s = None)"
  from key g have h: "handleSubmit s = s"
    by (auto simp: handleSubmit_def)
  from g have "apiKey s = [] \<or> (audioUrl s = [] \<and> selectedFile s = None)
     \<or> status s \<in> set [Uploading, Submitting, Polling]"
    by auto
  from submitThrough_rejected [OF this, of uploadNet submitNet] h show ?thesis
    by (simp add: newEvents_def)
qed

theorem submit_noop_witness:
  "apiKey (initial ''k1'') \<noteq> [] \<and>
   audioUrl (initial ''k1'') = [] \<and> selectedFile (initial ''k1'') = None \<and>
   handleSubmit (initial ''k1'') = initial ''k1'' \<and>
   apiKey pollingState \<noteq> [] \<and> status pollingState = Polling \<and>
   handleSubmit pollingState = pollingState \<and>
   submitThrough (Inl (JsError ''offline'')) (Inr (Ok (Inr completedJob))) pollingState
     = pollingState"
proof -
  have a: "apiKey (initial ''k1'') \<noteq> []"
    "audioUrl (initial ''k1'') = [] \<and> selectedFile (initial ''k1'') = None"
    by (simp_all add: initial_def)
  have b: "apiKey pollingState \<noteq> []" "status pollingState = Polling"
    by (simp_all add: pollingState_eval initial_def)
  from a(2) have a': "status (initial ''k1'') = Uploading \<or> status (initial ''k1'') = Submitting
     \<or> status (initial ''k1'') = Polling
     \<or> (audioUrl (initial ''k1'') = [] \<and> selectedFile (initial ''k1'') = None)"
    by blast
  from b(2) have b': "status pollingState = Uploading \<or> status pollingState = Submitting
     \<or> status pollingState = Polling
     \<or> (audioUrl pollingState = [] \<and> selectedFile pollingState = None)"
    by blast
  from submit_noop [OF a(1) a', of "Inl (JsError ''offline'')" "Inl (JsError ''offline'')"]
    submit_noop [OF b(1) b', of "Inl (JsError ''offline'')" "Inr (Ok (Inr completedJob))"]
    a b
  show ?thesis by blast
qed

section \<open>A job completed at creation\<close>

lemma createJobAnswered_completed:
  assumes "t_status t = TCompleted"
  shows "createJobAnswered key (Inr (Ok (Inr t))) s =
    s\<lparr>transcript := Some t, status := Completed, trace := trace s @ [StatusSet Completed]\<rparr>"
  using assms by (simp add: createJobAnswered_def transcriptionResponse_def setStatus_def)

text \<open>
  Claim C4. A submission that starts (credential set, a source present, no job in
  flight), whose upload, if any, succeeds and whose createJob response has status
  completed, ends in the completed state with that response published and no error;
  among the effects it logs there is no \<^verbatim>\<open>setStatus('polling')\<close> and no
  \<^verbatim>\<open>setInterval\<close>, and the window's timers and the timer ref are as before. Also
  when other events come between the request and the answer, the answer sets the
  completed state, publishes the response, logs nothing but that
  \<^verbatim>\<open>setStatus('completed')\<close>, and leaves the timers and the ref alone.
\<close>

theorem completed_at_creation:
  assumes "apiKey s \<noteq> []"
    and "status s \<noteq> Uploading \<and> status s \<noteq> Submitting \<and> status s \<noteq> Polling"
    and "selectedFile s = None \<longrightarrow> audioUrl s \<noteq> []"
    and "selectedFile s \<noteq> None \<longrightarrow> (\<exists>url. uploadNet = Inr (Ok (Inr url)))"
    and "submitNet = Inr (Ok (Inr t))"
    and "t_status t = TCompleted"
  shows "status (submitThrough uploadNet submitNet s) = Completed \<and>
    transcript (submitThrough uploadNet submitNet s) = Some t \<and>
    error (submitThrough uploadNet submitNet s) = None \<and>
    StatusSet Polling \<notin> set (newEvents s (submitThrough uploadNet submitNet s)) \<and>
    (\<forall>h. IntervalSet h \<notin> set (newEvents s (submitThrough uploadNet submitNet s))) \<and>
    timers (submitThrough uploadNet submitNet s) = timers s \<and>
    pollingIntervalRef (submitThrough uploadNet submitNet s) = pollingIntervalRef s \<and>
    status (createJobAnswered key submitNet s') = Completed \<and>
    transcript (createJobAnswered key submitNet s') = Some t \<and>
    newEvents s' (createJobAnswered key submitNet s') = [StatusSet Completed] \<and>
    timers (createJobAnswered key submitNet s') = timers s' \<and>
    pollingIntervalRef (createJobAnswered key submitNet s') = pollingIntervalRef s'"
proof -
  note late = createJobAnswered_completed [OF assms(6)]
  from assms(2) have st: "status s \<notin> set [Uploading, Submitting, Polling]" by simp
  have through: "status (submitThrough uploadNet submitNet s) = Completed \<and>
    transcript (submitThrough uploadNet submitNet s) = Some t \<and>
    error (submitThrough uploadNet submitNet s) = None \<and>
    StatusSet Polling \<notin> set (newEvents s (submitThrough uploadNet submitNet s)) \<and>
    (\<forall>h. IntervalSet h \<notin> set (newEvents s (submitThrough uploadNet submitNet s))) \<and>
    timers (submitThrough uploadNet submitNet s) = timers s \<and>
    pollingIntervalRef (submitThrough uploadNet submitNet s) = pollingIntervalRef s"
  proof (cases "selectedFile s")
    case None
    with assms(3) have url: "audioUrl s \<noteq> []" by simp
    from submitThrough_url [OF assms(1) None url st, of uploadNet submitNet] assms(5)
    show ?thesis by (simp add: late newEvents_def)
  next
    case (Some f)
    with assms(4) obtain url where U: "uploadNet = Inr (Ok (Inr url))" by auto
    then have "uploadResponse uploadNet = Inr url" by (simp add: uploadResponse_def)
    with submitThrough_file [OF assms(1) Some st, of uploadNet submitNet] assms(5)
    show ?thesis by (simp add: late newEvents_def)
  qed
  from through assms(5) show ?thesis
    by (simp add: late newEvents_def)
qed

theorem completed_at_creation_witness:
  "apiKey urlReadyState \<noteq> [] \<and> status urlReadyState = Idle \<and>
   selectedFile urlReadyState = None \<and> audioUrl urlReadyState \<noteq> [] \<and>
   t_status completedJob = TCompleted \<and>
   status (submitThrough (Inl (JsError ''unused'')) (Inr (Ok (Inr completedJob))) urlReadyState)
     = Completed \<and>
   transcript (submitThrough (Inl (JsError ''unused'')) (Inr (Ok (Inr completedJob))) urlReadyState)
     = Some completedJob \<and>
   StatusSet Polling \<notin> set (newEvents urlReadyState
     (submitThrough (Inl (JsError ''unused'')) (Inr (Ok (Inr completedJob))) urlReadyState)) \<and>
   timers (submitThrough (Inl (JsError ''unused'')) (Inr (Ok (Inr completedJob))) urlReadyState) = [] \<and>
   apiKey fileReadyState \<noteq> [] \<and> status fileReadyState = Idle \<and>
   selectedFile fileReadyState \<noteq> None \<and>
   status (submitThrough (Inr (Ok (Inr ''https://cdn/u1''))) (Inr (Ok (Inr completedJob)))
     fileReadyState) = Completed \<and>
   StatusSet Polling \<notin> set (newEvents fileReadyState
     (submitThrough (Inr (Ok (Inr ''https://cdn/u1''))) (Inr (Ok (Inr completedJob)))
        fileReadyState))"
proof -
  have ev: "apiKey urlReadyState \<noteq> []" "status urlReadyState = Idle"
    "selectedFile urlReadyState = None" "audioUrl urlReadyState \<noteq> []"
    "t_status completedJob = TCompleted" "timers urlReadyState = []"
    by (simp_all add: urlReadyState_def handler_defs initial_def completedJob_def)
  from ev have hyp:
    "status urlReadyState \<noteq> Uploading \<and> status urlReadyState \<noteq> Submitting
       \<and> status urlReadyState \<noteq> Polling"
    "selectedFile urlReadyState = None \<longrightarrow> audioUrl urlReadyState \<noteq> []"
    "selectedFile urlReadyState \<noteq> None \<longrightarrow> (\<exists>url. Inl (JsError ''unused'') = Inr (Ok (Inr url)))"
    by simp_all
  have fv: "apiKey fileReadyState \<noteq> []" "status fileReadyState = Idle"
    "selectedFile fileReadyState \<noteq> None"
    by (simp_all add: fileReadyState_def handler_defs initial_def)
  from fv have fhyp:
    "status fileReadyState \<noteq> Uploading \<and> status fileReadyState \<noteq> Submitting
       \<and> status fileReadyState \<noteq> Polling"
    "selectedFile fileReadyState = None \<longrightarrow> audioUrl fileReadyState \<noteq> []"
    "selectedFile fileReadyState \<noteq> None \<longrightarrow>
       (\<exists>url. (Inr (Ok (Inr ''https://cdn/u1'')) :: string fetched) = Inr (Ok (Inr url)))"
    by auto
  from completed_at_creation [OF ev(1) hyp refl ev(5), of "''k1''" urlReadyState]
    completed_at_creation [OF fv(1) fhyp refl ev(5), of "''k1''" fileReadyState] ev fv
  show ?thesis by simp
qed

section \<open>Poll ticks\<close>

lemma timerInv_tick:
  assumes "timerInv s" and "n < length (timers s)"
  obtains h jid key where "timers s = [(h, jid, key)]" and "key \<noteq> []" and "n = 0"
  using assms by (auto simp: timerInv_def)

lemma deliver_fetch_at:
  "n < length (pending s) \<Longrightarrow> pending s ! n = AwaitFetchJob \<Longrightarrow>
   step (Answer n (JobAnswer net)) s = fetchAnswered net (s\<lparr>pending := dropAt n (pending s)\<rparr>)"
  by (simp add: deliver_def)

lemma fetchAnswered_terminal_error:
  assumes "timerInv s" and "resultResponse net = Inr t" and "t_status t = TError"
  shows "timers (fetchAnswered net s) = [] \<and>
    pollingIntervalRef (fetchAnswered net s) = None \<and>
    status (fetchAnswered net s) = Error \<and>
    transcript (fetchAnswered net s) = Some t \<and>
    error (fetchAnswered net s) = Some (js_or (t_error t) msg_job_failed)"
  using stopPolling_timers [OF assms(1)] assms(2,3)
  by (simp add: fetchAnswered_def Let_def)

lemma fetchAnswered_failure:
  assumes "timerInv s" and "resultResponse net = Inl e"
  shows "timers (fetchAnswered net s) = [] \<and>
    pollingIntervalRef (fetchAnswered net s) = None \<and>
    status (fetchAnswered net s) = Error \<and>
    transcript (fetchAnswered net s) = transcript s \<and>
    error (fetchAnswered net s) = Some msg_poll_failed \<and>
    console (fetchAnswered net s) = console s @ [e]"
  using stopPolling_timers [OF assms(1)] assms(2)
  by (simp add: fetchAnswered_def pollCatch_def Let_def)

text \<open>
  Claim C5. In any state reached from the first render, when an active timer fires and
  the fetched job has status error, no timer is left, the ref is null, the workflow
  state is error, the job is published and the error shown is the job's error message,
  verbatim when the job has a non-empty one (otherwise the fixed fallback text). The
  same holds when the answer to a tick's request arrives later, after other events.
\<close>

theorem poll_tick_job_error:
  assumes "s = run as (initial k)"
    and "net = Inr (Ok (Inr t))"
    and "t_status t = TError"
  shows
   "(n < length (timers s) \<longrightarrow>
      timers (tickThrough n net s) = [] \<and>
      pollingIntervalRef (tickThrough n net s) = None \<and>
      status (tickThrough n net s) = Error \<and>
      transcript (tickThrough n net s) = Some t \<and>
      error (tickThrough n net s) = Some (js_or (t_error t) msg_job_failed) \<and>
      (\<forall>m. t_error t = Some m \<and> m \<noteq> [] \<longrightarrow> error (tickThrough n net s) = Some m)) \<and>
    (i < length (pending s) \<and> pending s ! i = AwaitFetchJob \<longrightarrow>
      timers (step (Answer i (JobAnswer net)) s) = [] \<and>
      pollingIntervalRef (step (Answer i (JobAnswer net)) s) = None \<and>
      status (step (Answer i (JobAnswer net)) s) = Error \<and>
      transcript (step (Answer i (JobAnswer net)) s) = Some t \<and>
      error (step (Answer i (JobAnswer net)) s) = Some (js_or (t_error t) msg_job_failed) \<and>
      (\<forall>m. t_error t = Some m \<and> m \<noteq> [] \<longrightarrow>
         error (step (Answer i (JobAnswer net)) s) = Some m))"
proof -
  have inv: "timerInv s"
    unfolding assms(1) by (rule timerInv_reachable)
  from assms(2) have r: "resultResponse net = Inr t"
    by (simp add: resultResponse_def)
  have a: "timers (tickThrough n net s) = [] \<and>
      pollingIntervalRef (tickThrough n net s) = None \<and>
      status (tickThrough n net s) = Error \<and>
      transcript (tickThrough n net s) = Some t \<and>
      error (tickThrough n net s) = Some (js_or (t_error t) msg_job_failed) \<and>
      (\<forall>m. t_error t = Some m \<and> m \<noteq> [] \<longrightarrow> error (tickThrough n net s) = Some m)"
    if n: "n < length (timers s)"
  proof -
    from inv n obtain h jid key
      where T: "timers s = [(h, jid, key)]" and key: "key \<noteq> []" and n0: "n = 0"
      by (rule timerInv_tick)
    from T n0 have nth: "timers s ! n = (h, jid, key)" by simp
    let ?s1 = "logEvents [ClientCall OpFetchJob, HttpRequest (resultRequest jid key)] s"
    have "timerInv ?s1" using inv by simp
    from fetchAnswered_terminal_error [OF this r assms(3)] tickThrough_eq [OF n nth key, of net]
    show ?thesis by (auto simp: js_or_def)
  qed
  have b: "timers (step (Answer i (JobAnswer net)) s) = [] \<and>
      pollingIntervalRef (step (Answer i (JobAnswer net)) s) = None \<and>
      status (step (Answer i (JobAnswer net)) s) = Error \<and>
      transcript (step (Answer i (JobAnswer net)) s) = Some t \<and>
      error (step (Answer i (JobAnswer net)) s) = Some (js_or (t_error t) msg_job_failed) \<and>
      (\<forall>m. t_error t = Some m \<and> m \<noteq> [] \<longrightarrow>
         error (step (Answer i (JobAnswer net)) s) = Some m)"
    if i: "i < length (pending s)" "pending s ! i = AwaitFetchJob"
  proof -
    let ?s1 = "s\<lparr>pending := dropAt i (pending s)\<rparr>"
    have "timerInv ?s1" using inv by simp
    from fetchAnswered_terminal_error [OF this r assms(3)] deliver_fetch_at [OF i, of net]
    show ?thesis by (auto simp: js_or_def)
  qed
  from a b show ?thesis by blast
qed

theorem poll_tick_job_error_witness:
  "pollingState = run [UrlChange ''https://x/a.mp3'', Submit,
      Answer 0 (JobAnswer (Inr (Ok (Inr queuedJob))))] (initial ''k1'') \<and>
   0 < length (timers pollingState) \<and> t_status failedJob = TError \<and>
   t_error failedJob = Some ''bad audio'' \<and>
   timers (tickThrough 0 (Inr (Ok (Inr failedJob))) pollingState) = [] \<and>
   status (tickThrough 0 (Inr (Ok (Inr failedJob))) pollingState) = Error \<and>
   error (tickThrough 0 (Inr (Ok (Inr failedJob))) pollingState) = Some ''bad audio'' \<and>
   0 < length (pending tickedState) \<and> pending tickedState ! 0 = AwaitFetchJob \<and>
   timers (step (Answer 0 (JobAnswer (Inr (Ok (Inr failedJob))))) tickedState) = [] \<and>
   status (step (Answer 0 (JobAnswer (Inr (Ok (Inr failedJob))))) tickedState) = Error \<and>
   error (step (Answer 0 (JobAnswer (Inr (Ok (Inr failedJob))))) tickedState)
     = Some ''bad audio''"
proof -
  have eq: "pollingState = run [UrlChange ''https://x/a.mp3'', Submit,
      Answer 0 (JobAnswer (Inr (Ok (Inr queuedJob))))] (initial ''k1'')"
    by (rule pollingState_def)
  have ev: "0 < length (timers pollingState)" "t_status failedJob = TError"
    "t_error failedJob = Some ''bad audio''"
    by (simp_all add: pollingState_eval failedJob_def)
  have pv: "0 < length (pending tickedState)" "pending tickedState ! 0 = AwaitFetchJob"
    by (simp_all add: tickedState_eval)
  from poll_tick_job_error [OF eq refl ev(2), of 0] ev
  have a: "timers (tickThrough 0 (Inr (Ok (Inr failedJob))) pollingState) = []"
    "status (tickThrough 0 (Inr (Ok (Inr failedJob))) pollingState) = Error"
    "error (tickThrough 0 (Inr (Ok (Inr failedJob))) pollingState) = Some ''bad audio''"
    by (simp_all add: js_or_def)
  from poll_tick_job_error [OF tickedState_def refl ev(2), of _ 0] pv ev
  have b: "timers (step (Answer 0 (JobAnswer (Inr (Ok (Inr failedJob))))) tickedState) = []"
    "status (step (Answer 0 (JobAnswer (Inr (Ok (Inr failedJob))))) tickedState) = Error"
    "error (step (Answer 0 (JobAnswer (Inr (Ok (Inr failedJob))))) tickedState)
       = Some ''bad audio''"
    by (simp_all add: js_or_def del: step.simps)
  from eq ev pv a b show ?thesis by blast
qed

text \<open>
  Claim C6, as stated, fails: when the fetch of a tick fails, the error shown is one
  fixed text, the same for a 500 and for a 404, and not the message of the error that
  getTranscriptionResult threw.
\<close>

theorem poll_tick_hides_fetch_error:
  "fst (getTranscriptionResult ''t1'' ''k1''
      (Inr (NotOk 500 ''Internal Server Error'' (Inr (Some ''boom''))))) =
     Inl (JsError ''API Error: 500 Internal Server Error - boom'') \<and>
   error (tickThrough 0 (Inr (NotOk 500 ''Internal Server Error'' (Inr (Some ''boom''))))
      pollingState) = Some msg_poll_failed \<and>
   error (tickThrough 0 (Inr (NotOk 404 ''Not Found'' (Inr (Some ''no such job''))))
      pollingState) = Some msg_poll_failed \<and>
   msg_poll_failed \<noteq> ''API Error: 500 Internal Server Error - boom''"
  by (simp add: tickThrough_def pollingState_eval handler_defs initial_def
      getTranscriptionResult_def string_of_nat_500 string_of_nat_404 msg_poll_failed_def)

text \<open>
  Claim C6, amended. In any state reached from the first render, when an active timer
  fires and getTranscriptionResult fails, no timer is left, the ref is null, the workflow
  state is error and the error shown is the fixed text
  \<^verbatim>\<open>msg_poll_failed\<close>; the error thrown goes to the console only, and for a
  response that is not ok with a JSON body holding a message it carries the HTTP status,
  the status text and that message. The same holds when the failing answer to a tick's
  request arrives later, after other events.
\<close>

theorem poll_tick_fetch_failure:
  assumes "s = run as (initial k)"
  shows
   "(n < length (timers s) \<and> timers s ! n = (h, jid, key) \<and>
     fst (getTranscriptionResult jid key net) = Inl e \<longrightarrow>
      timers (tickThrough n net s) = [] \<and>
      pollingIntervalRef (tickThrough n net s) = None \<and>
      status (tickThrough n net s) = Error \<and>
      error (tickThrough n net s) = Some msg_poll_failed \<and>
      console (tickThrough n net s) = console s @ [e] \<and>
      (\<forall>st txt m. net = Inr (NotOk st txt (Inr (Some m))) \<longrightarrow>
         e = JsError (''API Error: '' @ string_of_nat st @ '' '' @ txt @ '' - '' @ m))) \<and>
    (i < length (pending s) \<and> pending s ! i = AwaitFetchJob \<and> resultResponse net = Inl e \<longrightarrow>
      timers (step (Answer i (JobAnswer net)) s) = [] \<and>
      pollingIntervalRef (step (Answer i (JobAnswer net)) s) = None \<and>
      status (step (Answer i (JobAnswer net)) s) = Error \<and>
      error (step (Answer i (JobAnswer net)) s) = Some msg_poll_failed \<and>
      console (step (Answer i (JobAnswer net)) s) = console s @ [e] \<and>
      (\<forall>st txt m. net = Inr (NotOk st txt (Inr (Some m))) \<longrightarrow>
         e = JsError (''API Error: '' @ string_of_nat st @ '' '' @ txt @ '' - '' @ m)))"
proof -
  have inv: "timerInv s"
    unfolding assms(1) by (rule timerInv_reachable)
  have carried: "\<forall>st txt m. net = Inr (NotOk st txt (Inr (Some m))) \<longrightarrow>
       e = JsError (''API Error: '' @ string_of_nat st @ '' '' @ txt @ '' - '' @ m)"
    if "resultResponse net = Inl e"
    using that by (auto simp: resultResponse_def js_template_def)
  have a: "timers (tickThrough n net s) = [] \<and>
      pollingIntervalRef (tickThrough n net s) = None \<and>
      status (tickThrough n net s) = Error \<and>
      error (tickThrough n net s) = Some msg_poll_failed \<and>
      console (tickThrough n net s) = console s @ [e] \<and>
      (\<forall>st txt m. net = Inr (NotOk st txt (Inr (Some m))) \<longrightarrow>
         e = JsError (''API Error: '' @ string_of_nat st @ '' '' @ txt @ '' - '' @ m))"
    if n: "n < length (timers s)" and nth: "timers s ! n = (h, jid, key)"
      and f: "fst (getTranscriptionResult jid key net) = Inl e"
  proof -
    from inv n obtain h' jid' key'
      where T: "timers s = [(h', jid', key')]" and key': "key' \<noteq> []" and n0: "n = 0"
      by (rule timerInv_tick)
    from T n0 nth key' have key: "key \<noteq> []" by simp
    with f have r: "resultResponse net = Inl e"
      by (simp add: getTranscriptionResult_def)
    let ?s1 = "logEvents [ClientCall OpFetchJob, HttpRequest (resultRequest jid key)] s"
    have "timerInv ?s1" using inv by simp
    from fetchAnswered_failure [OF this r] tickThrough_eq [OF n nth key, of net] carried [OF r]
    show ?thesis by simp
  qed
  have b: "timers (step (Answer i (JobAnswer net)) s) = [] \<and>
      pollingIntervalRef (step (Answer i (JobAnswer net)) s) = None \<and>
      status (step (Answer i (JobAnswer net)) s) = Error \<and>
      error (step (Answer i (JobAnswer net)) s) = Some msg_poll_failed \<and>
      console (step (Answer i (JobAnswer net)) s) = console s @ [e] \<and>
      (\<forall>st txt m. net = Inr (NotOk st txt (Inr (Some m))) \<longrightarrow>
         e = JsError (''API Error: '' @ string_of_nat st @ '' '' @ txt @ '' - '' @ m))"
    if i: "i < length (pending s)" "pending s ! i = AwaitFetchJob"
      and r: "resultResponse net = Inl e"
  proof -
    let ?s1 = "s\<lparr>pending := dropAt i (pending s)\<rparr>"
    have "timerInv ?s1" using inv by simp
    from fetchAnswered_failure [OF this r] deliver_fetch_at [OF i, of net] carried [OF r]
    show ?thesis by simp
  qed
  from a b show ?thesis by blast
qed

theorem poll_tick_fetch_failure_witness:
  "pollingState = run [UrlChange ''https://x/a.mp3'', Submit,
      Answer 0 (JobAnswer (Inr (Ok (Inr queuedJob))))] (initial ''k1'') \<and>
   0 < length (timers pollingState) \<and>
   timers pollingState ! 0 = (1, ''t1'', ''k1'') \<and>
   fst (getTranscriptionResult ''t1'' ''k1''
      (Inr (NotOk 500 ''Internal Server Error'' (Inr (Some ''boom''))))) =
     Inl (JsError ''API Error: 500 Internal Server Error - boom'') \<and>
   timers (tickThrough 0 (Inr (NotOk 500 ''Internal Server Error'' (Inr (Some ''boom''))))
      pollingState) = [] \<and>
   status (tickThrough 0 (Inr (NotOk 500 ''Internal Server Error'' (Inr (Some ''boom''))))
      pollingState) = Error \<and>
   console (tickThrough 0 (Inr (NotOk 500 ''Internal Server Error'' (Inr (Some ''boom''))))
      pollingState) = [JsError ''API Error: 500 Internal Server Error - boom''] \<and>
   0 < length (pending tickedState) \<and> pending tickedState ! 0 = AwaitFetchJob \<and>
   resultResponse (Inr (NotOk 500 ''Internal Server Error'' (Inr (Some ''boom'')))) =
     Inl (JsError ''API Error: 500 Internal Server Error - boom'') \<and>
   timers (step (Answer 0 (JobAnswer
      (Inr (NotOk 500 ''Internal Server Error'' (Inr (Some ''boom'')))))) tickedState) = [] \<and>
   error (step (Answer 0 (JobAnswer
      (Inr (NotOk 500 ''Internal Server Error'' (Inr (Some ''boom'')))))) tickedState)
     = Some msg_poll_failed"
proof -
  have eq: "pollingState = run [UrlChange ''https://x/a.mp3'', Submit,
      Answer 0 (JobAnswer (Inr (Ok (Inr queuedJob))))] (initial ''k1'')"
    by (rule pollingState_def)
  have ev: "0 < length (timers pollingState)"
    "timers pollingState ! 0 = (1, ''t1'', ''k1'')"
    "fst (getTranscriptionResult ''t1'' ''k1''
      (Inr (NotOk 500 ''Internal Server Error'' (Inr (Some ''boom''))))) =
     Inl (JsError ''API Error: 500 Internal Server Error - boom'')"
    "console pollingState = []"
    by (simp_all add: pollingState_eval getTranscriptionResult_def resultResponse_def
        js_template_def string_of_nat_500 initial_def)
  have pv: "0 < length (pending tickedState)" "pending tickedState ! 0 = AwaitFetchJob"
    "resultResponse (Inr (NotOk 500 ''Internal Server Error'' (Inr (Some ''boom'')))) =
     Inl (JsError ''API Error: 500 Internal Server Error - boom'')"
    by (simp_all add: tickedState_eval resultResponse_def js_template_def string_of_nat_500)
  from poll_tick_fetch_failure [OF eq, of 0 1 "''t1''" "''k1''"
      "Inr (NotOk 500 ''Internal Server Error'' (Inr (Some ''boom'')))"
      "JsError ''API Error: 500 Internal Server Error - boom''"] ev
  have a: "timers (tickThrough 0 (Inr (NotOk 500 ''Internal Server Error'' (Inr (Some ''boom''))))
      pollingState) = []"
    "status (tickThrough 0 (Inr (NotOk 500 ''Internal Server Error'' (Inr (Some ''boom''))))
      pollingState) = Error"
    "console (tickThrough 0 (Inr (NotOk 500 ''Internal Server Error'' (Inr (Some ''boom''))))
      pollingState) = [JsError ''API Error: 500 Internal Server Error - boom'']"
    by simp_all
  from poll_tick_fetch_failure [OF tickedState_def, of _ _ _ _
      "Inr (NotOk 500 ''Internal Server Error'' (Inr (Some ''boom'')))"
      "JsError ''API Error: 500 Internal Server Error - boom''" 0] pv
  have b: "timers (step (Answer 0 (JobAnswer
      (Inr (NotOk 500 ''Internal Server Error'' (Inr (Some ''boom'')))))) tickedState) = []"
    "error (step (Answer 0 (JobAnswer
      (Inr (NotOk 500 ''Internal Server Error'' (Inr (Some ''boom'')))))) tickedState)
     = Some msg_poll_failed"
    by (simp_all del: step.simps)
  from eq ev pv a b show ?thesis by blast
qed

section \<open>The client operations\<close>

text \<open>
  Claim C8, as stated, fails for a response that is not ok and whose body is not JSON
  (a gateway's HTML page, say): reading the body throws first, and the operation fails
  with that error, the same for a 502 and for a 500, which carries neither the HTTP
  status nor a message of the server.
\<close>

theorem client_error_without_status:
  "fst (uploadFile (File ''a.mp3'' [1, 2]) ''k1''
     (Inr (NotOk 502 ''Bad Gateway'' (Inl (JsError ''Unexpected token < in JSON at position 0'')))))
     = Inl (JsError ''Unexpected token < in JSON at position 0'') \<and>
   fst (uploadFile (File ''a.mp3'' [1, 2]) ''k1''
     (Inr (NotOk 500 ''Internal Server Error''
        (Inl (JsError ''Unexpected token < in JSON at position 0'')))))
     = Inl (JsError ''Unexpected token < in JSON at position 0'') \<and>
   fst (submitForTranscription ''https://x/a.mp3'' ''k1''
     (Inr (NotOk 502 ''Bad Gateway'' (Inl (JsError ''Unexpected token < in JSON at position 0'')))))
     = Inl (JsError ''Unexpected token < in JSON at position 0'') \<and>
   fst (getTranscriptionResult ''t1'' ''k1''
     (Inr (NotOk 502 ''Bad Gateway'' (Inl (JsError ''Unexpected token < in JSON at position 0'')))))
     = Inl (JsError ''Unexpected token < in JSON at position 0'')"
  by (simp add: uploadFile_def submitForTranscription_def getTranscriptionResult_def
      uploadResponse_def transcriptionResponse_def resultResponse_def)

text \<open>
  Claim C8, amended. With an empty credential each of the three operations fails at once
  and sends no request. With a non-empty credential each sends one request; on a
  response that is not ok whose body is JSON it fails with an error whose message holds
  the status code, the status text and the message \<open>m\<close> of the body when there is one
  (for the upload \<open>m\<close> non-empty, as the source puts a fixed text for an empty or absent
  message; the other two put \<^verbatim>\<open>undefined\<close> for an absent one); when the body is
  not JSON it fails with the error of reading the body. On an ok response the upload
  returns the \<^verbatim>\<open>upload_url\<close> of the body.
\<close>

theorem client_operations:
  "uploadFile file [] netU = (Inl (JsError msg_key_upload), []) \<and>
   submitForTranscription url [] netT = (Inl (JsError msg_key_submit), []) \<and>
   getTranscriptionResult jid [] netT = (Inl (JsError msg_key_result), []) \<and>
   (key \<noteq> [] \<longrightarrow>
      (m \<noteq> [] \<longrightarrow>
         fst (uploadFile file key (Inr (NotOk st txt (Inr (Some m))))) =
           Inl (JsError (''API Error while uploading: '' @ string_of_nat st @ '' '' @ txt
                  @ '' - '' @ m))) \<and>
      fst (submitForTranscription url key (Inr (NotOk st txt (Inr (Some m))))) =
        Inl (JsError (''API Error: '' @ string_of_nat st @ '' '' @ txt @ '' - '' @ m)) \<and>
      fst (getTranscriptionResult jid key (Inr (NotOk st txt (Inr (Some m))))) =
        Inl (JsError (''API Error: '' @ string_of_nat st @ '' '' @ txt @ '' - '' @ m)) \<and>
      fst (uploadFile file key (Inr (Ok (Inr u)))) = Inr u \<and>
      fst (uploadFile file key (Inr (NotOk st txt (Inr err)))) =
        Inl (JsError (''API Error while uploading: '' @ string_of_nat st @ '' '' @ txt
               @ '' - '' @ js_or err ''Unknown upload error'')) \<and>
      fst (submitForTranscription url key (Inr (NotOk st txt (Inr err)))) =
        Inl (JsError (''API Error: '' @ string_of_nat st @ '' '' @ txt @ '' - ''
               @ js_template err)) \<and>
      fst (getTranscriptionResult jid key (Inr (NotOk st txt (Inr err)))) =
        Inl (JsError (''API Error: '' @ string_of_nat st @ '' '' @ txt @ '' - ''
               @ js_template err)) \<and>
      fst (uploadFile file key (Inr (NotOk st txt (Inl e)))) = Inl e \<and>
      fst (submitForTranscription url key (Inr (NotOk st txt (Inl e)))) = Inl e \<and>
      fst (getTranscriptionResult jid key (Inr (NotOk st txt (Inl e)))) = Inl e \<and>
      snd (uploadFile file key netU) = [uploadRequest file key] \<and>
      snd (submitForTranscription url key netT) = [transcriptionRequest url key] \<and>
      snd (getTranscriptionResult jid key netT) = [resultRequest jid key])"
  by (simp add: uploadFile_def submitForTranscription_def getTranscriptionResult_def
      uploadResponse_def transcriptionResponse_def resultResponse_def
      js_or_def js_template_def)

theorem client_operations_witness:
  "''k1'' \<noteq> [] \<and> ''boom'' \<noteq> [] \<and>
   uploadFile (File ''a.mp3'' [1, 2]) [] (Inr (Ok (Inr ''https://cdn/u1''))) =
     (Inl (JsError msg_key_upload), []) \<and>
   fst (uploadFile (File ''a.mp3'' [1, 2]) ''k1''
          (Inr (NotOk 500 ''Internal Server Error'' (Inr (Some ''boom''))))) =
     Inl (JsError ''API Error while uploading: 500 Internal Server Error - boom'') \<and>
   fst (getTranscriptionResult ''t1'' ''k1''
          (Inr (NotOk 500 ''Internal Server Error'' (Inr (Some ''boom''))))) =
     Inl (JsError ''API Error: 500 Internal Server Error - boom'') \<and>
   fst (uploadFile (File ''a.mp3'' [1, 2]) ''k1'' (Inr (Ok (Inr ''https://cdn/u1'')))) =
     Inr ''https://cdn/u1''"
  using client_operations [of "File ''a.mp3'' [1, 2]" "Inr (Ok (Inr ''https://cdn/u1''))"
      "''https://x/a.mp3''" "Inl (JsError ''offline'')" "''t1''" "''k1''" "''boom''" 500
      "''Internal Server Error''" "''https://cdn/u1''" "Some ''boom''" "JsError ''x''"]
  by (simp add: string_of_nat_500)

section \<open>States that look the same behave the same\<close>

lemma sim_fields:
  assumes "sim n a b"
  shows "apiKey b = apiKey a" "audioUrl b = audioUrl a" "selectedFile b = selectedFile a"
    "fileInputRef b = fileInputRef a" "transcript b = transcript a" "status b = status a"
    "error b = error a" "isCopied b = isCopied a" "map snd (timers b) = map snd (timers a)"
    "pending b = pending a"
  using assms by (simp_all add: sim_def view_def)

lemma copiedInv_updates [simp]:
  "copiedInv (s\<lparr>trace := tr\<rparr>) = copiedInv s"
  "copiedInv (s\<lparr>transcript := t\<rparr>) = copiedInv s"
  "copiedInv (s\<lparr>error := e\<rparr>) = copiedInv s"
  "copiedInv (s\<lparr>console := c\<rparr>) = copiedInv s"
  "copiedInv (s\<lparr>isCopied := False\<rparr>)"
  "copiedInv (s\<lparr>audioUrl := u\<rparr>) = copiedInv s"
  "copiedInv (s\<lparr>selectedFile := f\<rparr>) = copiedInv s"
  "copiedInv (s\<lparr>fileInputRef := v\<rparr>) = copiedInv s"
  "copiedInv (s\<lparr>apiKey := k\<rparr>) = copiedInv s"
  "copiedInv (s\<lparr>pending := ps\<rparr>) = copiedInv s"
  "copiedInv (s\<lparr>clipboard := cb\<rparr>) = copiedInv s"
  "copiedInv (s\<lparr>status := st\<rparr>) = copiedInv s"
  "copiedInv (s\<lparr>timers := ts\<rparr>) = copiedInv s"
  "copiedInv (s\<lparr>nextHandle := h\<rparr>) = copiedInv s"
  "copiedInv (s\<lparr>pollingIntervalRef := r\<rparr>) = copiedInv s"
  "copiedInv (logEvents evs s) = copiedInv s"
  "copiedInv (setStatus st s) = copiedInv s"
  "copiedInv (suspend p s) = copiedInv s"
  by (simp_all add: copiedInv_def)

lemma sim_setStatus: "sim n a b \<Longrightarrow> sim n (setStatus v a) (setStatus v b)"
  by (simp add: sim_def view_def)

lemma sim_logEvents: "sim n a b \<Longrightarrow> sim n (logEvents evs a) (logEvents evs b)"
  by (simp add: sim_def view_def)

lemma sim_suspend: "sim n a b \<Longrightarrow> sim n (suspend p a) (suspend p b)"
  by (simp add: sim_def view_def)

lemma sim_updates:
  "sim n a b \<Longrightarrow> sim n (a\<lparr>error := e\<rparr>) (b\<lparr>error := e\<rparr>)"
  "sim n a b \<Longrightarrow> sim n (a\<lparr>transcript := t\<rparr>) (b\<lparr>transcript := t\<rparr>)"
  "sim n a b \<Longrightarrow> sim n (a\<lparr>isCopied := False\<rparr>) (b\<lparr>isCopied := False\<rparr>)"
  "sim n a b \<Longrightarrow> sim n (a\<lparr>audioUrl := u\<rparr>) (b\<lparr>audioUrl := u\<rparr>)"
  "sim n a b \<Longrightarrow> sim n (a\<lparr>selectedFile := f\<rparr>) (b\<lparr>selectedFile := f\<rparr>)"
  "sim n a b \<Longrightarrow> sim n (a\<lparr>fileInputRef := v\<rparr>) (b\<lparr>fileInputRef := v\<rparr>)"
  "sim n a b \<Longrightarrow> sim n (a\<lparr>apiKey := k\<rparr>) (b\<lparr>apiKey := k\<rparr>)"
  "sim n a b \<Longrightarrow> sim n (a\<lparr>pending := ps\<rparr>) (b\<lparr>pending := ps\<rparr>)"
  "sim n a b \<Longrightarrow> sim n (a\<lparr>console := ca\<rparr>) (b\<lparr>console := cb\<rparr>)"
  by (simp_all add: sim_def view_def)

lemma sim_stopPolling: "sim n a b \<Longrightarrow> sim n (stopPolling a) (stopPolling b)"
  by (auto simp: sim_def view_def timerInv_def copiedInv_def stopPolling_def clearInterval_def
      refTruthy_def eraseHandle_def)

lemma sim_pollTranscript:
  "sim n a b \<Longrightarrow> sim n (pollTranscript key jid a) (pollTranscript key jid b)"
  by (auto simp: sim_def view_def timerInv_def copiedInv_def pollTranscript_def
      clearInterval_def setInterval_def refTruthy_def eraseHandle_def Let_def)

lemma sim_submitCatch: "sim n a b \<Longrightarrow> sim n (submitCatch e a) (submitCatch e b)"
  by (simp add: submitCatch_def Let_def sim_updates sim_setStatus)

lemma sim_pollCatch: "sim n a b \<Longrightarrow> sim n (pollCatch e a) (pollCatch e b)"
  by (simp add: pollCatch_def Let_def sim_updates sim_setStatus sim_stopPolling)

lemma sim_createJobAnswered:
  "sim n a b \<Longrightarrow> sim n (createJobAnswered key net a) (createJobAnswered key net b)"
  by (simp add: createJobAnswered_def Let_def sim_updates sim_setStatus sim_pollTranscript
      sim_submitCatch split: sum.splits TranscriptStatus.splits)

lemma sim_startTranscription:
  "sim n a b \<Longrightarrow> sim n (startTranscription url key a) (startTranscription url key b)"
  by (simp add: startTranscription_def Let_def sim_setStatus sim_logEvents sim_suspend
      sim_submitCatch)

lemma sim_uploadAnswered:
  "sim n a b \<Longrightarrow> sim n (uploadAnswered key net a) (uploadAnswered key net b)"
  by (simp add: uploadAnswered_def sim_startTranscription sim_submitCatch split: sum.splits)

lemma sim_startUpload:
  "sim n a b \<Longrightarrow> sim n (startUpload f key a) (startUpload f key b)"
  by (simp add: startUpload_def Let_def sim_setStatus sim_logEvents sim_suspend
      sim_submitCatch)

lemma sim_handleSubmit:
  assumes "sim n a b"
  shows "sim n (handleSubmit a) (handleSubmit b)"
  using assms
  by (simp add: handleSubmit_def Let_def sim_fields [OF assms] sim_updates sim_setStatus
      sim_startTranscription sim_startUpload split: option.splits)

lemma sim_pollTick: "sim n a b \<Longrightarrow> sim n (pollTick c a) (pollTick c b)"
  by (simp add: pollTick_def Let_def sim_logEvents sim_suspend sim_pollCatch
      split: prod.splits)

lemma sim_fetchAnswered: "sim n a b \<Longrightarrow> sim n (fetchAnswered net a) (fetchAnswered net b)"
  by (simp add: fetchAnswered_def Let_def sim_updates sim_setStatus sim_stopPolling
      sim_pollCatch split: sum.splits)

lemma sim_deliver:
  assumes "sim n a b"
  shows "sim n (deliver i ans a) (deliver i ans b)"
  using assms
  by (simp add: deliver_def Let_def sim_fields [OF assms] sim_updates sim_uploadAnswered
      sim_createJobAnswered sim_fetchAnswered split: pending.splits answer.splits)

lemma sim_resetState:
  assumes "sim n a b"
  shows "sim n (resetState a) (resetState b)"
  using assms
  by (simp add: resetState_def Let_def sim_fields [OF assms] sim_updates sim_setStatus
      sim_stopPolling split: option.splits)

lemma sim_handleUrlChange:
  assumes "sim n a b"
  shows "sim n (handleUrlChange v a) (handleUrlChange v b)"
  using assms
  by (simp add: handleUrlChange_def Let_def sim_fields [OF assms] sim_updates
      split: option.splits)

lemma sim_handleFileChange:
  assumes "sim n a b"
  shows "sim n (handleFileChange fs a) (handleFileChange fs b)"
  using assms
  by (simp add: handleFileChange_def Let_def sim_updates)

lemma sim_handleCopy:
  assumes "sim n a b"
  shows "sim n (handleCopy a) (handleCopy b)"
  using assms
  by (auto simp: handleCopy_def sim_def view_def timerInv_def copiedInv_def
      split: option.splits)

lemma sim_copyTimeout:
  assumes "sim n a b"
  shows "sim n (copyTimeout a) (copyTimeout b)"
  using assms
  by (auto simp: copyTimeout_def sim_def view_def timerInv_def copiedInv_def)

lemma sim_tick_closure:
  assumes "sim n a b"
  shows "length (timers b) = length (timers a)"
    and "i < length (timers a) \<Longrightarrow> snd (timers b ! i) = snd (timers a ! i)"
proof -
  from assms have m: "map snd (timers b) = map snd (timers a)" by (rule sim_fields)
  then show "length (timers b) = length (timers a)" by (rule map_eq_imp_length_eq)
  then show "snd (timers b ! i) = snd (timers a ! i)" if "i < length (timers a)"
    using that m by (metis nth_map)
qed

lemma sim_step:
  assumes "sim n a b"
  shows "sim n (step x a) (step x b)"
  using assms
  by (cases x)
    (simp_all add: sim_updates sim_handleUrlChange sim_handleFileChange sim_handleSubmit
      sim_pollTick sim_deliver sim_resetState sim_handleCopy sim_copyTimeout sim_tick_closure
      sim_fields [OF assms] split: option.splits)

lemma sim_run: "sim n a b \<Longrightarrow> sim n (run xs a) (run xs b)"
  by (induction xs arbitrary: a b) (simp_all add: sim_step)

section \<open>Reset\<close>

lemma fileInputRef_pollCatch [simp]: "fileInputRef (pollCatch e s) = fileInputRef s"
  by (simp add: pollCatch_def Let_def)

lemma fileInputRef_createJobAnswered [simp]:
  "fileInputRef (createJobAnswered key net s) = fileInputRef s"
  by (simp add: createJobAnswered_def Let_def split: sum.splits TranscriptStatus.splits)

lemma fileInputRef_uploadAnswered [simp]:
  "fileInputRef (uploadAnswered key net s) = fileInputRef s"
  by (simp add: uploadAnswered_def split: sum.splits)

lemma fileInputRef_startUpload [simp]: "fileInputRef (startUpload f key s) = fileInputRef s"
  by (simp add: startUpload_def Let_def)

lemma fileInputRef_handleSubmit [simp]: "fileInputRef (handleSubmit s) = fileInputRef s"
  by (simp add: handleSubmit_def Let_def split: option.splits)

lemma fileInputRef_pollTick [simp]: "fileInputRef (pollTick c s) = fileInputRef s"
  by (simp add: pollTick_def Let_def split: prod.splits)

lemma fileInputRef_fetchAnswered [simp]: "fileInputRef (fetchAnswered net s) = fileInputRef s"
  by (simp add: fetchAnswered_def Let_def split: sum.splits)

lemma fileInputRef_deliver [simp]: "fileInputRef (deliver n ans s) = fileInputRef s"
  by (simp add: deliver_def Let_def split: pending.splits answer.splits)

lemma fileInputRef_step: "fileInputRef s \<noteq> None \<Longrightarrow> fileInputRef (step a s) \<noteq> None"
  by (cases a)
    (auto simp: resetState_fields handleUrlChange_def handleFileChange_def handleCopy_def
      copyTimeout_def Let_def split: option.splits)

lemma fileInputRef_run: "fileInputRef s \<noteq> None \<Longrightarrow> fileInputRef (run as s) \<noteq> None"
proof (induction as arbitrary: s)
  case Nil
  then show ?case by simp
next
  case (Cons a as)
  from Cons.prems have "fileInputRef (step a s) \<noteq> None"
    by (rule fileInputRef_step)
  then have "fileInputRef (run as (step a s)) \<noteq> None"
    by (rule Cons.IH)
  then show ?case by simp
qed

lemma fileInputRef_reachable: "fileInputRef (run as (initial k)) \<noteq> None"
  by (rule fileInputRef_run) (simp add: initial_def)

lemma sim_reset_initial:
  assumes "s = run as (initial k)" and "pending s = []"
  shows "sim (length (trace (resetState s))) (resetState s) (initial (apiKey s))"
proof -
  have inv: "timerInv s"
    unfolding assms(1) by (rule timerInv_reachable)
  have f: "fileInputRef s \<noteq> None"
    unfolding assms(1) by (rule fileInputRef_reachable)
  have v: "view (resetState s) = view (initial (apiKey s))"
    using resetState_timers [OF inv] f assms(2)
    by (auto simp: view_def resetState_fields initial_def)
  have "timerInv (resetState s)" using inv by (rule timerInv_resetState)
  moreover have "copiedInv (resetState s)"
    by (simp add: copiedInv_def resetState_fields)
  moreover have "timerInv (initial (apiKey s))" by (rule timerInv_initial)
  moreover have "copiedInv (initial (apiKey s))" by (simp add: copiedInv_def initial_def)
  moreover have "trace (initial (apiKey s)) = []" by (simp add: initial_def)
  ultimately show ?thesis using v by (simp add: sim_def)
qed

text \<open>
  Claim C7, as stated, fails in its last part. The second tick's request was answered
  with a server error while the first tick's request was still in flight; the user
  resets from the error state, which clears the job and the error and leaves no timer,
  enters another URL and submits. The job t9 is queued and polled, as on a first
  submission. Then the late answer to the first request arrives, with the old job
  completed: the callback cancels the timer of t9 and publishes the old job.
\<close>

theorem late_answer_after_reset:
  "status lateAnswerState = Error \<and>
   view (resetState lateAnswerState) =
     (''k1'', [], None, Some [], None, Idle, None, False, [], [AwaitFetchJob]) \<and>
   view (run [UrlChange ''https://x/b.mp3'', Submit,
              Answer 0 (JobAnswer (Inr (Ok (Inr secondJob))))] (initial ''k1'')) =
     (''k1'', ''https://x/b.mp3'', None, Some [], Some secondJob, Polling, None, False,
      [(''t9'', ''k1'')], []) \<and>
   view (run [UrlChange ''https://x/b.mp3'', Submit,
              Answer 1 (JobAnswer (Inr (Ok (Inr secondJob)))),
              Answer 0 (JobAnswer (Inr (Ok (Inr completedJob))))]
          (resetState lateAnswerState)) =
     (''k1'', ''https://x/b.mp3'', None, Some [], Some completedJob, Completed, None, False,
      [], [])"
  by (simp add: lateAnswerState_def view_def handler_defs initial_def queuedJob_def
      secondJob_def completedJob_def string_of_nat_500)

text \<open>
  Claim C7, amended. In any state reached from the first render with workflow state
  completed or error, a reset clears the job and the error, leaves no timer and a null
  timer ref, and sets the workflow state to idle. When no request is in flight at the
  reset, every sequence of events from there leads to a state that looks the same as
  the one it leads to from the first render with the same credential, and logs the
  same effects up to timer handles: a later submission behaves as a first one.
\<close>

theorem reset_returns_to_idle:
  assumes "s = run as (initial k)"
    and "status s = Completed \<or> status s = Error"
  shows "transcript (resetState s) = None \<and> error (resetState s) = None \<and>
    timers (resetState s) = [] \<and> pollingIntervalRef (resetState s) = None \<and>
    status (resetState s) = Idle \<and>
    (pending s = [] \<longrightarrow>
       view (run bs (resetState s)) = view (run bs (initial (apiKey s))) \<and>
       map eraseHandle (newEvents (resetState s) (run bs (resetState s))) =
         map eraseHandle (trace (run bs (initial (apiKey s)))))"
proof -
  have inv: "timerInv s"
    unfolding assms(1) by (rule timerInv_reachable)
  have "view (run bs (resetState s)) = view (run bs (initial (apiKey s))) \<and>
       map eraseHandle (newEvents (resetState s) (run bs (resetState s))) =
         map eraseHandle (trace (run bs (initial (apiKey s))))"
    if p: "pending s = []"
  proof -
    from sim_reset_initial [OF assms(1) p]
    have "sim (length (trace (resetState s))) (run bs (resetState s))
        (run bs (initial (apiKey s)))"
      by (rule sim_run)
    then show ?thesis by (simp add: sim_def newEvents_def)
  qed
  with resetState_timers [OF inv] show ?thesis
    by (simp add: resetState_fields)
qed

theorem reset_returns_to_idle_witness:
  "completedState = run [UrlChange ''https://x/a.mp3'', Submit,
          Answer 0 (JobAnswer (Inr (Ok (Inr queuedJob)))),
          Tick 0, Answer 0 (JobAnswer (Inr (Ok (Inr completedJob))))] (initial ''k1'') \<and>
   status completedState = Completed \<and>
   pending completedState = [] \<and>
   transcript completedState = Some completedJob \<and>
   transcript (resetState completedState) = None \<and>
   status (resetState completedState) = Idle \<and>
   view (run [UrlChange ''https://x/b.mp3'', Submit,
              Answer 0 (JobAnswer (Inr (Ok (Inr secondJob))))]
          (resetState completedState)) =
     (''k1'', ''https://x/b.mp3'', None, Some [], Some secondJob, Polling, None, False,
      [(''t9'', ''k1'')], [])"
proof -
  have eq: "completedState = run [UrlChange ''https://x/a.mp3'', Submit,
          Answer 0 (JobAnswer (Inr (Ok (Inr queuedJob)))),
          Tick 0, Answer 0 (JobAnswer (Inr (Ok (Inr completedJob))))] (initial ''k1'')"
    by (rule completedState_def)
  have ev: "status completedState = Completed" "apiKey completedState = ''k1''"
    "transcript completedState = Some completedJob" "pending completedState = []"
    using completedState_eval by simp_all
  have first: "view (run [UrlChange ''https://x/b.mp3'', Submit,
              Answer 0 (JobAnswer (Inr (Ok (Inr secondJob))))] (initial ''k1'')) =
     (''k1'', ''https://x/b.mp3'', None, Some [], Some secondJob, Polling, None, False,
      [(''t9'', ''k1'')], [])"
    by (simp add: view_def handler_defs initial_def secondJob_def)
  from ev(1) have st: "status completedState = Completed \<or> status completedState = Error"
    by simp
  from reset_returns_to_idle [OF eq st, of "[UrlChange ''https://x/b.mp3'', Submit,
              Answer 0 (JobAnswer (Inr (Ok (Inr secondJob))))]"]
    first ev
  have "transcript (resetState completedState) = None"
    "status (resetState completedState) = Idle"
    "view (run [UrlChange ''https://x/b.mp3'', Submit,
              Answer 0 (JobAnswer (Inr (Ok (Inr secondJob))))]
          (resetState completedState)) =
     (''k1'', ''https://x/b.mp3'', None, Some [], Some secondJob, Polling, None, False,
      [(''t9'', ''k1'')], [])"
    by simp_all
  with eq ev show ?thesis by blast
qed

text \<open>
  Claim C10. Every reset empties the URL, the selected file, the file input element and
  the copied flag; afterwards no source is populated.
\<close>

theorem reset_clears_inputs:
  "audioUrl (resetState s) = [] \<and> selectedFile (resetState s) = None \<and>
   isCopied (resetState s) = False \<and>
   fileInputRef (resetState s) = map_option (\<lambda>v. []) (fileInputRef s) \<and>
   sourceExclusive (resetState s)"
  by (simp add: resetState_def setStatus_def stopPolling_def clearInterval_def Let_def
      sourceExclusive_def split: option.splits)

end
